theory Spec2Isabelle
  imports Complex_Main "HOL-Library.Sublist"
begin

section \<open>Required-SCC annotation checker (package requiredsccmonitortests)\<close>

subsection \<open>Strings and formatting\<close>

text \<open>
  Go strings are byte sequences, modelled as \<open>string\<close>. \<open>fmt.Sprintf\<close> with \<open>%s\<close>
  verbs is concatenation. \<open>sq\<close> is the single quote of the format strings and
  \<open>nl\<close> the newline.
\<close>

abbreviation sq :: string where
  "sq \<equiv> [CHR 0x27]"

abbreviation nl :: string where
  "nl \<equiv> [CHR 0x0A]"

text \<open>\<open>strings.HasPrefix(s, prefix)\<close>: \<open>len(s) >= len(prefix) && s[:len(prefix)] == prefix\<close>.\<close>

definition HasPrefix :: "string \<Rightarrow> string \<Rightarrow> bool" where
  "HasPrefix s p = (length p \<le> length s \<and> take (length p) s = p)"

text \<open>\<open>strings.Join(elems, sep)\<close>.\<close>

fun Join :: "string list \<Rightarrow> string \<Rightarrow> string" where
  "Join [] sep = []"
| "Join [x] sep = x"
| "Join (x # y # ys) sep = x @ sep @ Join (y # ys) sep"

subsection \<open>Data\<close>

text \<open>
  What the package takes from outside the repository and the model takes as
  parameters: the two annotation keys, constants of
  \<open>github.com/openshift/api/security/v1\<close>, and \<open>strings.ToLower\<close> of the Go
  library, whose Unicode case mapping is not spelled out here.
\<close>

record upstream =
  ValidatedSCCAnnotation :: string
  RequiredSCCAnnotation :: string
  ToLower :: "string \<Rightarrow> string"

record OwnerReference =
  or_Kind :: string
  or_Name :: string

record Pod =
  pod_Name :: string
  pod_Annotations :: "string \<rightharpoonup> string"
  pod_OwnerReferences :: "OwnerReference list"

record Namespace =
  ns_Name :: string

text \<open>A Go \<open>error\<close> value, with the text it prints.\<close>

datatype error = Error string

text \<open>What \<open>%v\<close> prints for an error.\<close>

fun error_text :: "error \<Rightarrow> string" where
  "error_text (Error msg) = msg"

text \<open>
  \<open>junitapi.JUnitTestCase\<close>, the fields this package sets. \<open>FailureOutput\<close> is a
  pointer: \<open>None\<close> is \<open>nil\<close> (the test passed), \<open>Some out\<close> is
  \<open>&FailureOutput{Output: out}\<close>.
\<close>

record JUnitTestCase =
  tc_Name :: string
  tc_SystemOut :: string
  tc_FailureOutput :: "string option"

typedecl Interval

text \<open>
  The cluster as the client sees it: the result of listing the namespaces and,
  for each namespace name, the result of listing its pods.
\<close>

record KubeClient =
  listNamespaces :: "error + Namespace list"
  listPods :: "string \<Rightarrow> error + Pod list"

text \<open>
  A value of the interface type \<open>kubernetes.Interface\<close>: the nil interface, or
  a \<open>*kubernetes.Clientset\<close>, a pointer that may itself be nil (\<open>None\<close>). An
  interface that holds a nil pointer is not equal to \<open>nil\<close>.
\<close>

datatype Interface = NilInterface | Clientset "KubeClient option"

record requiredSCCAnnotationChecker =
  kubeClient :: Interface

text \<open>
  A run-time panic: a method that reads a field of its receiver was called on a
  nil \<open>*Clientset\<close>.
\<close>

datatype panic = NilPointerDereference

subsection \<open>Tables\<close>

definition defaultSCCs :: "string set" where
  "defaultSCCs =
     {''anyuid'', ''hostaccess'', ''hostmount-anyuid'', ''hostnetwork'', ''hostnetwork-v2'',
      ''nonroot'', ''nonroot-v2'', ''privileged'', ''restricted'', ''restricted-v2''}"

text \<open>
  The values are \<open>sets.Set[string]\<close>, kept as the list of their elements;
  \<open>UnsortedList\<close> returns the elements in an unspecified order, which for the
  one-element sets of this table is the list itself.
\<close>

definition nonStandardSCCNamespaces :: "string \<rightharpoonup> string list" where
  "nonStandardSCCNamespaces =
     [''node-exporter'' \<mapsto> [''openshift-monitoring''],
      ''machine-api-termination-handler'' \<mapsto> [''openshift-machine-api'']]"

text \<open>Reading a Go map of strings: a missing key reads as the empty string.\<close>

definition annotation :: "(string \<rightharpoonup> string) \<Rightarrow> string \<Rightarrow> string" where
  "annotation m k = (case m k of None \<Rightarrow> [] | Some v \<Rightarrow> v)"

text \<open>
  \<open>allowedNamespaces, isNonStandard := nonStandardSCCNamespaces[validatedSCC]\<close>:
  a missing key gives the nil set, which has no element.
\<close>

definition allowedNamespacesOf :: "string \<Rightarrow> string list" where
  "allowedNamespacesOf validatedSCC =
     (case nonStandardSCCNamespaces validatedSCC of None \<Rightarrow> [] | Some s \<Rightarrow> s)"

definition isNonStandardSCC :: "string \<Rightarrow> bool" where
  "isNonStandardSCC validatedSCC = (nonStandardSCCNamespaces validatedSCC \<noteq> None)"

definition Has :: "string list \<Rightarrow> string \<Rightarrow> bool" where
  "Has s x = (x \<in> set s)"

definition UnsortedList :: "string list \<Rightarrow> string list" where
  "UnsortedList s = s"

subsection \<open>ownerReferences\<close>

definition ownerReferences :: "upstream \<Rightarrow> Pod \<Rightarrow> string" where
  "ownerReferences up pod =
     (let ownerRefs =
        map (\<lambda>r. ToLower up (or_Kind r) @ ''/'' @ or_Name r) (pod_OwnerReferences pod)
      in if length ownerRefs > 0 then '' (owners: '' @ Join ownerRefs '', '' @ '')'' else [])"

subsection \<open>CollectData\<close>

text \<open>
  The body of the loop over the pods of one namespace: \<open>failures\<close> is the slice
  the loop appends to.
\<close>

definition checkPod :: "upstream \<Rightarrow> string \<Rightarrow> Pod \<Rightarrow> string list \<Rightarrow> string list" where
  "checkPod up nsName pod failures =
     (let validatedSCC = annotation (pod_Annotations pod) (ValidatedSCCAnnotation up);
          allowedNamespaces = allowedNamespacesOf validatedSCC;
          isNonStandard = isNonStandardSCC validatedSCC
      in if pod_Annotations pod (RequiredSCCAnnotation up) \<noteq> None then
           (if isNonStandard \<and> \<not> Has allowedNamespaces nsName then
              failures @
                [''pod '' @ sq @ pod_Name pod @ sq @ '' has a non-standard SCC '' @ sq @ validatedSCC
                 @ sq @ '' not allowed in namespace '' @ sq @ nsName @ sq
                 @ ''; allowed namespaces are: '' @ Join (UnsortedList allowedNamespaces) '', '']
            else failures)
         else
           (let owners = ownerReferences up pod
            in if length validatedSCC = 0 then
                 failures @
                   [''annotation missing from pod '' @ sq @ pod_Name pod @ sq @ owners
                    @ ''; cannot suggest required-scc, no validated SCC on pod'']
               else if validatedSCC \<in> defaultSCCs then
                 failures @
                   [''annotation missing from pod '' @ sq @ pod_Name pod @ sq @ owners
                    @ ''; suggested required-scc: '' @ sq @ validatedSCC @ sq]
               else if isNonStandard then
                 (if Has allowedNamespaces nsName then
                    failures @
                      [''annotation missing from pod '' @ sq @ pod_Name pod @ sq @ owners
                       @ ''; suggested required-scc: '' @ sq @ validatedSCC @ sq
                       @ '', this is a non-standard SCC'']
                  else
                    failures @
                      [''annotation missing from pod '' @ sq @ pod_Name pod @ sq @ owners
                       @ ''; pod is using non-standard SCC '' @ sq @ validatedSCC @ sq
                       @ '' not allowed in namespace '' @ sq @ nsName @ sq
                       @ ''; allowed namespaces are: ''
                       @ Join (UnsortedList allowedNamespaces) '', ''])
               else
                 failures @
                   [''annotation missing from pod '' @ sq @ pod_Name pod @ sq @ owners
                    @ ''; cannot suggest required-scc, validated SCC '' @ sq @ validatedSCC @ sq
                    @ '' is a custom SCC'']))"

text \<open>\<open>for _, pod := range pods.Items\<close>.\<close>

fun checkPods :: "upstream \<Rightarrow> string \<Rightarrow> Pod list \<Rightarrow> string list \<Rightarrow> string list" where
  "checkPods up nsName [] failures = failures"
| "checkPods up nsName (pod # pods) failures =
     checkPods up nsName pods (checkPod up nsName pod failures)"

definition isPermanentOpenShiftNamespace :: "string \<Rightarrow> bool" where
  "isPermanentOpenShiftNamespace nsName =
     ((nsName = ''openshift'' \<or> HasPrefix nsName ''openshift-'')
      \<and> \<not> HasPrefix nsName ''openshift-must-gather-'')"

text \<open>The condition under which the loop over the namespaces takes its \<open>continue\<close>.\<close>

definition skipped :: "string \<Rightarrow> bool" where
  "skipped nsName =
     (\<not> HasPrefix nsName ''kube-'' \<and> nsName \<noteq> ''default''
      \<and> \<not> isPermanentOpenShiftNamespace nsName)"

definition testName :: "upstream \<Rightarrow> string \<Rightarrow> string" where
  "testName up nsName =
     ''[sig-auth] all workloads in ns/'' @ nsName @ '' must set the '' @ sq
     @ RequiredSCCAnnotation up @ sq @ '' annotation''"

text \<open>
  The result of \<open>CollectData\<close> is the Go triple
  \<open>(monitorapi.Intervals, []*junitapi.JUnitTestCase, error)\<close>; \<open>None\<close> is \<open>nil\<close> in
  each component.
\<close>

type_synonym collected = "Interval list option \<times> JUnitTestCase list option \<times> error option"

text \<open>\<open>for _, ns := range namespaces.Items\<close>, with \<open>junits\<close> the slice built so far.\<close>

fun collectNamespaces ::
  "upstream \<Rightarrow> KubeClient \<Rightarrow> Namespace list \<Rightarrow> JUnitTestCase list \<Rightarrow> collected" where
  "collectNamespaces up c [] junits = (None, Some junits, None)"
| "collectNamespaces up c (ns # rest) junits =
     (if skipped (ns_Name ns) then collectNamespaces up c rest junits
      else
        (case listPods c (ns_Name ns) of
           Inl err \<Rightarrow> (None, None, Some err)
         | Inr pods \<Rightarrow>
             (let failures = checkPods up (ns_Name ns) pods [];
                  name = testName up (ns_Name ns)
              in if length failures = 0 then
                   collectNamespaces up c rest
                     (junits @ [\<lparr>tc_Name = name, tc_SystemOut = [], tc_FailureOutput = None\<rparr>])
                 else
                   (let failureMsg = Join failures nl
                    in collectNamespaces up c rest
                         (junits @
                            [\<lparr>tc_Name = name, tc_SystemOut = failureMsg,
                              tc_FailureOutput = Some failureMsg\<rparr>,
                             \<lparr>tc_Name = name, tc_SystemOut = [], tc_FailureOutput = None\<rparr>])))))"

text \<open>
  The caller's context, storage directory and time window are not read. The
  result is a panic or the returned triple.
\<close>

definition CollectData :: "upstream \<Rightarrow> requiredSCCAnnotationChecker \<Rightarrow> panic + collected" where
  "CollectData up w =
     (case kubeClient w of
        NilInterface \<Rightarrow> Inr (None, None, None)
      | Clientset None \<Rightarrow> Inl NilPointerDereference
      | Clientset (Some c) \<Rightarrow>
          (case listNamespaces c of
             Inl err \<Rightarrow> Inr (None, None, Some err)
           | Inr items \<Rightarrow> Inr (collectNamespaces up c items [])))"

subsection \<open>NewAnalyzer and StartCollection\<close>

definition NewAnalyzer :: requiredSCCAnnotationChecker where
  "NewAnalyzer = \<lparr>kubeClient = NilInterface\<rparr>"

text \<open>
  \<open>newForConfig\<close> is what \<open>kubernetes.NewForConfig(adminRESTConfig)\<close> returns, a
  \<open>*Clientset\<close> and an error; with an error the pointer is nil. The pointer is
  stored in the interface field before the error is looked at. The result is
  the checker afterwards and the error returned.
\<close>

definition StartCollection ::
  "KubeClient option \<times> error option \<Rightarrow> requiredSCCAnnotationChecker
   \<Rightarrow> requiredSCCAnnotationChecker \<times> error option" where
  "StartCollection newForConfig w =
     (let (clientset, err) = newForConfig;
          w' = w\<lparr>kubeClient := Clientset clientset\<rparr>
      in if err \<noteq> None then (w', err) else (w', None))"

section \<open>API server disruption tolerance (package controlplane)\<close>

subsection \<open>float64 arithmetic\<close>

text \<open>
  A \<open>float64\<close> is represented by the real number it denotes. \<open>float64_round\<close>
  is IEEE 754 binary64 rounding to nearest, ties to even: the argument is scaled
  by the unit in the last place of its binade, \<open>2 ^ (e - 52)\<close> with
  \<open>2 ^ e \<le> |x| < 2 ^ (e + 1)\<close>, and rounded to an integer. Exponent limits are
  left out: every value computed below is zero or lies between \<open>0.08\<close> and
  \<open>2 ^ 63\<close> in magnitude, where binary64 has neither overflow nor subnormals.
\<close>

type_synonym float64 = real

text \<open>The number of binary digits of a positive integer.\<close>

function bitlen :: "int \<Rightarrow> int" where
  "bitlen n = (if n \<le> 0 then 0 else 1 + bitlen (n div 2))"
  by pat_completeness auto
termination
  by (relation "measure nat") auto

declare bitlen.simps [simp del]

text \<open>For \<open>x > 0\<close>, the integer \<open>e\<close> with \<open>2 ^ e \<le> x < 2 ^ (e + 1)\<close>.\<close>

definition floorlog2 :: "real \<Rightarrow> int" where
  "floorlog2 x = (if 1 \<le> x then bitlen \<lfloor>x\<rfloor> - 1 else - bitlen (\<lceil>1 / x\<rceil> - 1))"

definition roundHalfEven :: "real \<Rightarrow> int" where
  "roundHalfEven x =
     (let f = \<lfloor>x\<rfloor>; r = x - of_int f
      in if r < 1 / 2 then f else if 1 / 2 < r then f + 1 else if even f then f else f + 1)"

definition float64_round :: "real \<Rightarrow> float64" where
  "float64_round x =
     (if x = 0 then 0
      else (let ulp = 2 powi (floorlog2 \<bar>x\<bar> - 52)
            in of_int (roundHalfEven (x / ulp)) * ulp))"

text \<open>The conversion \<open>float64(n)\<close> of an \<open>int64\<close>.\<close>

definition float64_of_int64 :: "int \<Rightarrow> float64" where
  "float64_of_int64 n = float64_round (of_int n)"

text \<open>The product \<open>a * b\<close> of two \<open>float64\<close> values.\<close>

definition float64_mul :: "float64 \<Rightarrow> float64 \<Rightarrow> float64" where
  "float64_mul a b = float64_round (a * b)"

text \<open>
  The conversion \<open>int64(x)\<close> of a \<open>float64\<close>: the fraction is discarded
  (truncation towards zero).
\<close>

definition int64_of_float64 :: "float64 \<Rightarrow> int" where
  "int64_of_float64 x = (if 0 \<le> x then \<lfloor>x\<rfloor> else \<lceil>x\<rceil>)"

subsection \<open>Data\<close>

text \<open>
  A \<open>time.Duration\<close> is an \<open>int64\<close> count of nanoseconds, modelled by \<open>int\<close>:
  the only arithmetic on it scales it by a factor of at most \<open>0.23\<close>, which
  cannot leave the \<open>int64\<close> range (lemma \<open>scaled_duration_bounds\<close> below).
\<close>

definition Minute :: int where
  "Minute = 60 * 1000000000"

text \<open>
  \<open>apiconfigv1.TopologyMode\<close> is a string type of the imported package
  \<open>github.com/openshift/api/config/v1\<close>, with the constant
  \<open>SingleReplicaTopologyMode\<close>.
\<close>

type_synonym TopologyMode = string

definition SingleReplicaTopologyMode :: TopologyMode where
  "SingleReplicaTopologyMode = ''SingleReplica''"

record InfrastructureStatus =
  ControlPlaneTopology :: TopologyMode
  InfrastructureTopology :: TopologyMode

text \<open>
  What the function reads through \<open>f\<close> and the test context:
  \<^item> \<open>AllClusterVersionsAreGTE f (major, minor)\<close> is the result
    \<open>(bool, error)\<close> of \<open>util.AllClusterVersionsAreGTE(semver.Version{...}, f.ClientConfig())\<close>;
  \<^item> \<open>InfrastructureGet f\<close> is the result of getting the \<open>cluster\<close>
    infrastructure resource: an error, or the \<open>Status\<close> of the resource;
  \<^item> \<open>ProviderIs f name\<close> is \<open>framework.ProviderIs(name)\<close>.
\<close>

record Framework =
  AllClusterVersionsAreGTE :: "nat \<times> nat \<Rightarrow> bool \<times> error option"
  InfrastructureGet :: "error + InfrastructureStatus"
  ProviderIs :: "string \<Rightarrow> bool"

text \<open>
  \<open>framework.ExpectNoError(err, explain)\<close> fails the running test when \<open>err\<close> is
  not nil: control does not come back to the caller. \<open>Failure explain err\<close> is that
  outcome.
\<close>

datatype failure = Failure string error

subsection \<open>getTopologies and allowedAPIServerDisruption\<close>

definition getTopologies :: "Framework \<Rightarrow> failure + TopologyMode \<times> TopologyMode" where
  "getTopologies f =
     (case InfrastructureGet f of
        Inl err \<Rightarrow> Inl (Failure ''unable to determine cluster topology'' err)
      | Inr status \<Rightarrow> Inr (ControlPlaneTopology status, InfrastructureTopology status))"

text \<open>
  The \<open>switch\<close> statement: the value of \<open>toleratedDisruption\<close> after it, starting
  from \<open>0.08\<close>, and the lines it logs. A constant such as \<open>0.15\<close> denotes the
  \<open>float64\<close> nearest to it.
\<close>

definition toleratedDisruptionSwitch ::
  "Framework \<Rightarrow> bool \<Rightarrow> TopologyMode \<Rightarrow> float64 \<times> string list" where
  "toleratedDisruptionSwitch f hasAllFixes controlPlaneTopology =
     (if controlPlaneTopology = SingleReplicaTopologyMode then
        (if ProviderIs f ''azure'' then (float64_round (23 / 100), [])
         else (float64_round (15 / 100), []))
      else if ProviderIs f ''azure'' \<or> ProviderIs f ''aws'' \<or> ProviderIs f ''gce'' then
        (if hasAllFixes then
           (0, [''Cluster contains no versions older than 4.8, tolerating no disruption''])
         else (float64_round (8 / 100), []))
      else (float64_round (8 / 100), []))"

text \<open>
  The result is the lines logged, together with either the failure raised by
  \<open>getTopologies\<close> or the returned pair \<open>(*time.Duration, error)\<close>.
\<close>

definition allowedAPIServerDisruption ::
  "Framework \<Rightarrow> int \<Rightarrow> string list \<times> failure + string list \<times> int \<times> error option" where
  "allowedAPIServerDisruption f totalDuration =
     (let (hasAllFixes, err) = AllClusterVersionsAreGTE f (4, 8);
          logged =
            (case err of
               None \<Rightarrow> []
             | Some e \<Rightarrow>
                 [''Cannot require full control plane availability, ''
                  @ ''some versions could not be checked: '' @ error_text e])
      in case getTopologies f of
           Inl failed \<Rightarrow> Inl (logged, failed)
         | Inr (controlPlaneTopology, infraTopology) \<Rightarrow>
             (let (toleratedDisruption, lines) =
                    toleratedDisruptionSwitch f hasAllFixes controlPlaneTopology;
                  allowedDisruptionNanoseconds =
                    int64_of_float64 (float64_mul (float64_of_int64 totalDuration) toleratedDisruption)
              in Inr (logged @ lines, allowedDisruptionNanoseconds, None)))"

section \<open>Auxiliary notions for the statements\<close>

text \<open>
  The scope filter as the specification words it: the name is \<open>default\<close>, starts
  with \<open>kube-\<close>, or is a permanent platform namespace.
\<close>

definition inScope :: "string \<Rightarrow> bool" where
  "inScope nsName =
     (nsName = ''default'' \<or> prefix ''kube-'' nsName
      \<or> ((nsName = ''openshift'' \<or> prefix ''openshift-'' nsName)
          \<and> \<not> prefix ''openshift-must-gather-'' nsName))"

definition passCase :: "string \<Rightarrow> JUnitTestCase" where
  "passCase name = \<lparr>tc_Name = name, tc_SystemOut = [], tc_FailureOutput = None\<rparr>"

definition failCase :: "string \<Rightarrow> string \<Rightarrow> JUnitTestCase" where
  "failCase name msg = \<lparr>tc_Name = name, tc_SystemOut = msg, tc_FailureOutput = Some msg\<rparr>"

text \<open>The test cases one namespace with the given pods contributes.\<close>

definition namespaceCases :: "upstream \<Rightarrow> string \<Rightarrow> Pod list \<Rightarrow> JUnitTestCase list" where
  "namespaceCases up nsName pods =
     (let failures = checkPods up nsName pods []
      in if failures = [] then [passCase (testName up nsName)]
         else [failCase (testName up nsName) (Join failures nl), passCase (testName up nsName)])"

definition podsOf :: "KubeClient \<Rightarrow> string \<Rightarrow> Pod list" where
  "podsOf c nsName = (case listPods c nsName of Inl _ \<Rightarrow> [] | Inr pods \<Rightarrow> pods)"

text \<open>The namespace is not skipped and listing its pods returns an error.\<close>

definition listingFails :: "KubeClient \<Rightarrow> Namespace \<Rightarrow> bool" where
  "listingFails c ns = (\<not> skipped (ns_Name ns) \<and> isl (listPods c (ns_Name ns)))"

section \<open>Example clusters\<close>

text \<open>
  \<open>strings.ToLower\<close> on strings of ASCII bytes: the letters \<open>A\<close> .. \<open>Z\<close> are
  moved to \<open>a\<close> .. \<open>z\<close>, every other byte is kept. The owner kinds of the
  examples are ASCII.
\<close>

definition toLowerChar :: "char \<Rightarrow> char" where
  "toLowerChar c =
     (let n = (of_char c :: nat) in if 65 \<le> n \<and> n \<le> 90 then char_of (n + 32) else c)"

definition asciiToLower :: "string \<Rightarrow> string" where
  "asciiToLower s = map toLowerChar s"

definition knownUpstream :: upstream where
  "knownUpstream =
     \<lparr>ValidatedSCCAnnotation = ''openshift.io/scc'',
      RequiredSCCAnnotation = ''openshift.io/required-scc'',
      ToLower = asciiToLower\<rparr>"

definition barePod :: Pod where
  "barePod = \<lparr>pod_Name = ''p1'', pod_Annotations = Map.empty, pod_OwnerReferences = []\<rparr>"

definition nodeExporterPod :: Pod where
  "nodeExporterPod =
     \<lparr>pod_Name = ''node-exporter-x7k2p'',
      pod_Annotations = [''openshift.io/scc'' \<mapsto> ''node-exporter''],
      pod_OwnerReferences = [\<lparr>or_Kind = ''DaemonSet'', or_Name = ''node-exporter''\<rparr>]\<rparr>"

definition annotatedPod :: Pod where
  "annotatedPod =
     \<lparr>pod_Name = ''node-exporter-q9w4z'',
      pod_Annotations = [''openshift.io/scc'' \<mapsto> ''node-exporter'',
                         ''openshift.io/required-scc'' \<mapsto> ''node-exporter''],
      pod_OwnerReferences = []\<rparr>"

definition restrictedPod :: Pod where
  "restrictedPod =
     \<lparr>pod_Name = ''web-1'', pod_Annotations = [''openshift.io/scc'' \<mapsto> ''restricted-v2''],
      pod_OwnerReferences = []\<rparr>"

definition customPod :: Pod where
  "customPod =
     \<lparr>pod_Name = ''web-2'', pod_Annotations = [''openshift.io/scc'' \<mapsto> ''my-scc''],
      pod_OwnerReferences = []\<rparr>"

definition annotatedRestrictedPod :: Pod where
  "annotatedRestrictedPod =
     \<lparr>pod_Name = ''web-3'',
      pod_Annotations = [''openshift.io/scc'' \<mapsto> ''restricted-v2'',
                         ''openshift.io/required-scc'' \<mapsto> ''restricted-v2''],
      pod_OwnerReferences = []\<rparr>"

text \<open>
  One namespace in scope, with a pod that has no annotation, and one out of
  scope, whose pods cannot be listed; then the same cluster with the pods of the
  second namespace listed.
\<close>

definition kubeFooCluster :: KubeClient where
  "kubeFooCluster =
     \<lparr>listNamespaces = Inr [\<lparr>ns_Name = ''kube-foo''\<rparr>, \<lparr>ns_Name = ''myproject''\<rparr>],
      listPods = (\<lambda>n. if n = ''kube-foo'' then Inr [barePod] else Inl (Error ''forbidden''))\<rparr>"

definition kubeFooOpenCluster :: KubeClient where
  "kubeFooOpenCluster =
     \<lparr>listNamespaces = Inr [\<lparr>ns_Name = ''kube-foo''\<rparr>, \<lparr>ns_Name = ''myproject''\<rparr>],
      listPods = (\<lambda>n. if n = ''kube-foo'' then Inr [barePod]
                       else if n = ''myproject'' then Inr [customPod]
                       else Inl (Error ''forbidden''))\<rparr>"

definition failingPodsCluster :: KubeClient where
  "failingPodsCluster =
     \<lparr>listNamespaces = Inr [\<lparr>ns_Name = ''kube-system''\<rparr>, \<lparr>ns_Name = ''default''\<rparr>],
      listPods = (\<lambda>n. if n = ''kube-system'' then Inr [] else Inl (Error ''timeout''))\<rparr>"

definition unlistableCluster :: KubeClient where
  "unlistableCluster =
     \<lparr>listNamespaces = Inl (Error ''Unauthorized''), listPods = (\<lambda>n. Inr [])\<rparr>"

text \<open>
  A single-node cluster on aws with no version older than 4.8; a replicated one;
  a replicated one whose versions could not be checked; one whose
  infrastructure resource cannot be read.
\<close>

definition singleNodeCluster :: Framework where
  "singleNodeCluster =
     \<lparr>AllClusterVersionsAreGTE = (\<lambda>v. (True, None)),
      InfrastructureGet =
        Inr \<lparr>ControlPlaneTopology = ''SingleReplica'', InfrastructureTopology = ''SingleReplica''\<rparr>,
      ProviderIs = (\<lambda>p. p = ''aws'')\<rparr>"

definition replicatedCluster :: Framework where
  "replicatedCluster =
     \<lparr>AllClusterVersionsAreGTE = (\<lambda>v. (True, None)),
      InfrastructureGet =
        Inr \<lparr>ControlPlaneTopology = ''HighlyAvailable'',
             InfrastructureTopology = ''HighlyAvailable''\<rparr>,
      ProviderIs = (\<lambda>p. p = ''aws'')\<rparr>"

definition unverifiedCluster :: Framework where
  "unverifiedCluster =
     \<lparr>AllClusterVersionsAreGTE = (\<lambda>v. (False, Some (Error ''connection refused''))),
      InfrastructureGet =
        Inr \<lparr>ControlPlaneTopology = ''HighlyAvailable'',
             InfrastructureTopology = ''HighlyAvailable''\<rparr>,
      ProviderIs = (\<lambda>p. p = ''aws'')\<rparr>"

definition unreachableCluster :: Framework where
  "unreachableCluster =
     \<lparr>AllClusterVersionsAreGTE = (\<lambda>v. (False, Some (Error ''connection refused''))),
      InfrastructureGet = Inl (Error ''connection refused''),
      ProviderIs = (\<lambda>p. p = ''aws'')\<rparr>"

section \<open>Lemmas on the required-SCC annotation checker\<close>

lemma HasPrefix_prefix: "HasPrefix s p \<longleftrightarrow> prefix p s"
  unfolding HasPrefix_def prefix_def
  by (metis append_eq_conv_conj append_take_drop_id length_append le_add1)

lemma collect_ok:
  "\<forall>ns \<in> set nss. \<not> listingFails c ns \<Longrightarrow>
   collectNamespaces up c nss acc =
     (None,
      Some (acc @ concat (map (\<lambda>ns. namespaceCases up (ns_Name ns) (podsOf c (ns_Name ns)))
                           (filter (\<lambda>ns. \<not> skipped (ns_Name ns)) nss))),
      None)"
proof (induction nss arbitrary: acc)
  case Nil
  then show ?case by simp
next
  case (Cons ns rest)
  then show ?case
    by (auto simp: listingFails_def namespaceCases_def podsOf_def passCase_def failCase_def
          Let_def split: sum.splits)
qed

lemma collect_err:
  "\<forall>n \<in> set pre. \<not> listingFails c n \<Longrightarrow> \<not> skipped (ns_Name ns) \<Longrightarrow>
   listPods c (ns_Name ns) = Inl e \<Longrightarrow>
   collectNamespaces up c (pre @ ns # post) acc = (None, None, Some e)"
proof (induction pre arbitrary: acc)
  case Nil
  then show ?case by simp
next
  case (Cons n pre)
  then show ?case
    by (auto simp: listingFails_def Let_def split: sum.splits)
qed

lemma collect_some_no_failure:
  "collectNamespaces up c nss acc = (iv, Some js, er) \<Longrightarrow> \<forall>ns \<in> set nss. \<not> listingFails c ns"
proof (induction nss arbitrary: acc)
  case Nil
  then show ?case by simp
next
  case (Cons ns rest)
  then show ?case
    by (auto simp: listingFails_def Let_def split: sum.splits if_splits)
qed

lemma testName_inj: "testName up a = testName up b \<longleftrightarrow> a = b"
  by (auto simp: testName_def)

lemma checkPod_append:
  "checkPod up nsName pod failures = failures @ checkPod up nsName pod []"
  by (simp add: checkPod_def Let_def)

lemma checkPods_concat:
  "checkPods up nsName pods failures =
     failures @ concat (map (\<lambda>pod. checkPod up nsName pod []) pods)"
proof (induction pods arbitrary: failures)
  case Nil
  then show ?case by simp
next
  case (Cons pod pods)
  show ?case
    using Cons [of "checkPod up nsName pod failures"] checkPod_append [of up nsName pod failures]
    by simp
qed

lemma checkPods_messages:
  "checkPods up nsName pods [] = concat (map (\<lambda>pod. checkPod up nsName pod []) pods)"
  by (simp add: checkPods_concat)

lemma namespaceCases_names:
  "t \<in> set (namespaceCases up n pods) \<Longrightarrow> tc_Name t = testName up n"
  by (auto simp: namespaceCases_def passCase_def failCase_def Let_def split: if_splits)

lemma filter_concat_map:
  "(\<And>x t. x \<in> set xs \<Longrightarrow> t \<in> set (g x) \<Longrightarrow> P t = Q x) \<Longrightarrow>
   filter P (concat (map g xs)) = concat (map g (filter Q xs))"
proof (induction xs)
  case Nil
  then show ?case by simp
next
  case (Cons x xs)
  have all: "\<And>t. t \<in> set (g x) \<Longrightarrow> P t = Q x"
    using Cons.prems by simp
  have "filter P (g x) = (if Q x then g x else [])"
    using all by (cases "Q x") (auto simp: filter_empty_conv intro: filter_True)
  moreover have "filter P (concat (map g xs)) = concat (map g (filter Q xs))"
    using Cons by simp
  ultimately show ?case by simp
qed

lemma filter_key_distinct:
  "distinct (map f xs) \<Longrightarrow> x \<in> set xs \<Longrightarrow> filter (\<lambda>y. f y = f x) xs = [x]"
proof (induction xs)
  case Nil
  then show ?case by simp
next
  case (Cons y ys)
  show ?case
  proof (cases "y = x")
    case True
    then have "f x \<notin> f ` set ys"
      using Cons.prems by simp
    then have "\<forall>z \<in> set ys. f z \<noteq> f x"
      by (metis imageI)
    then have "filter (\<lambda>z. f z = f x) ys = []"
      by (simp add: filter_empty_conv)
    with True show ?thesis by simp
  next
    case False
    then have "x \<in> set ys" "f y \<noteq> f x"
      using Cons.prems by auto
    then show ?thesis using Cons by simp
  qed
qed

lemma collected_cases_of_namespace:
  assumes ok: "collectNamespaces up c items [] = (iv, Some junits, er)"
    and mem: "ns \<in> set items" and scope: "\<not> skipped (ns_Name ns)"
    and dist: "distinct (map ns_Name items)"
  shows "filter (\<lambda>t. tc_Name t = testName up (ns_Name ns)) junits =
           namespaceCases up (ns_Name ns) (podsOf c (ns_Name ns))"
proof -
  let ?g = "\<lambda>n. namespaceCases up (ns_Name n) (podsOf c (ns_Name n))"
  let ?scoped = "filter (\<lambda>n. \<not> skipped (ns_Name n)) items"
  have nofail: "\<forall>n \<in> set items. \<not> listingFails c n"
    using ok by (rule collect_some_no_failure)
  have junits: "junits = concat (map ?g ?scoped)"
    using collect_ok [OF nofail, of up "[]"] ok by simp
  have "filter (\<lambda>t. tc_Name t = testName up (ns_Name ns)) (concat (map ?g ?scoped)) =
          concat (map ?g (filter (\<lambda>n. ns_Name n = ns_Name ns) ?scoped))"
    by (rule filter_concat_map) (simp add: namespaceCases_names testName_inj)
  moreover have "filter (\<lambda>n. ns_Name n = ns_Name ns) ?scoped = [ns]"
  proof (rule filter_key_distinct)
    show "distinct (map ns_Name ?scoped)"
      using dist by (simp add: distinct_map_filter)
    show "ns \<in> set ?scoped"
      using mem scope by simp
  qed
  ultimately show ?thesis
    using junits by simp
qed

lemma skipped_iff: "skipped n \<longleftrightarrow> \<not> inScope n"
  by (auto simp: skipped_def inScope_def isPermanentOpenShiftNamespace_def HasPrefix_prefix)

lemma collect_names:
  assumes "collectNamespaces up c items [] = (iv, Some junits, er)"
  shows "set (map tc_Name junits) = testName up ` ns_Name ` {n \<in> set items. \<not> skipped (ns_Name n)}"
proof -
  have nofail: "\<forall>n \<in> set items. \<not> listingFails c n"
    using assms by (rule collect_some_no_failure)
  have junits: "junits = concat (map (\<lambda>n. namespaceCases up (ns_Name n) (podsOf c (ns_Name n)))
                                  (filter (\<lambda>n. \<not> skipped (ns_Name n)) items))"
    using collect_ok [OF nofail, of up "[]"] assms by simp
  have "\<And>n pods. tc_Name ` set (namespaceCases up n pods) = {testName up n}"
    by (auto simp: namespaceCases_def passCase_def failCase_def Let_def)
  then show ?thesis
    unfolding junits by (auto simp: image_UN)
qed

lemma collect_cong:
  "(\<And>n. n \<in> set items \<Longrightarrow> \<not> skipped (ns_Name n) \<Longrightarrow>
      listPods c' (ns_Name n) = listPods c (ns_Name n)) \<Longrightarrow>
   collectNamespaces up c' items acc = collectNamespaces up c items acc"
proof (induction items arbitrary: acc)
  case Nil
  then show ?case by simp
next
  case (Cons n rest)
  then show ?case
    by (cases "skipped (ns_Name n)") (simp_all add: Let_def split: sum.splits)
qed

lemmas scope_eval = skipped_def isPermanentOpenShiftNamespace_def HasPrefix_def

lemma ownerReferences_nodeExporterPod: "ownerReferences knownUpstream nodeExporterPod = '' (owners: daemonset/node-exporter)''"
  by (simp add: ownerReferences_def nodeExporterPod_def knownUpstream_def asciiToLower_def toLowerChar_def char_of_def
      bit_Suc_0_iff)

section \<open>Properties of the required-SCC annotation checker\<close>

text \<open>
  C1: for a namespace that is in scope, of a listing whose namespace names are
  distinct, a successful \<open>CollectData\<close> emits under the namespace's test name
  exactly one passing test case when the namespace has no violation message,
  and otherwise exactly two: a failing one whose output is the messages joined
  by newlines, followed by a passing one. No other test case has that name.
\<close>

theorem flake_pair_per_namespace:
  assumes "kubeClient w = Clientset (Some c)" and "listNamespaces c = Inr items"
    and "CollectData up w = Inr (iv, Some junits, er)"
    and "ns \<in> set items" and "\<not> skipped (ns_Name ns)"
    and "distinct (map ns_Name items)"
  shows "\<exists>pods. listPods c (ns_Name ns) = Inr pods \<and>
           filter (\<lambda>t. tc_Name t = testName up (ns_Name ns)) junits =
             (let failures = checkPods up (ns_Name ns) pods []
              in if failures = []
                 then [\<lparr>tc_Name = testName up (ns_Name ns), tc_SystemOut = [],
                         tc_FailureOutput = None\<rparr>]
                 else [\<lparr>tc_Name = testName up (ns_Name ns), tc_SystemOut = Join failures nl,
                         tc_FailureOutput = Some (Join failures nl)\<rparr>,
                       \<lparr>tc_Name = testName up (ns_Name ns), tc_SystemOut = [],
                         tc_FailureOutput = None\<rparr>])"
proof -
  have run: "collectNamespaces up c items [] = (iv, Some junits, er)"
    using assms(1-3) by (simp add: CollectData_def)
  have "\<not> listingFails c ns"
    using collect_some_no_failure [OF run] assms(4) by blast
  then obtain pods where pods: "listPods c (ns_Name ns) = Inr pods"
    using assms(5) by (cases "listPods c (ns_Name ns)") (auto simp: listingFails_def)
  then have "podsOf c (ns_Name ns) = pods"
    by (simp add: podsOf_def)
  then show ?thesis
    using collected_cases_of_namespace [OF run assms(4,5,6)] pods
    by (simp add: namespaceCases_def passCase_def failCase_def Let_def)
qed

theorem flake_pair_per_namespace_witness:
  "\<exists>iv junits er.
     CollectData knownUpstream \<lparr>kubeClient = Clientset (Some kubeFooCluster)\<rparr> = Inr (iv, Some junits, er)
     \<and> filter (\<lambda>t. tc_Name t = testName knownUpstream ''kube-foo'') junits =
         [\<lparr>tc_Name = testName knownUpstream ''kube-foo'',
           tc_SystemOut = ''annotation missing from pod '' @ sq @ ''p1'' @ sq
             @ ''; cannot suggest required-scc, no validated SCC on pod'',
           tc_FailureOutput = Some (''annotation missing from pod '' @ sq @ ''p1'' @ sq
             @ ''; cannot suggest required-scc, no validated SCC on pod'')\<rparr>,
          \<lparr>tc_Name = testName knownUpstream ''kube-foo'', tc_SystemOut = [],
           tc_FailureOutput = None\<rparr>]"
proof -
  let ?w = "\<lparr>kubeClient = Clientset (Some kubeFooCluster)\<rparr>"
  let ?items = "[\<lparr>ns_Name = ''kube-foo''\<rparr>, \<lparr>ns_Name = ''myproject''\<rparr>]"
  let ?ns = "\<lparr>ns_Name = ''kube-foo''\<rparr>"
  have 1: "kubeClient ?w = Clientset (Some kubeFooCluster)" by simp
  have 2: "listNamespaces kubeFooCluster = Inr ?items"
    by (simp add: kubeFooCluster_def)
  have "\<exists>iv junits er. CollectData knownUpstream ?w = Inr (iv, Some junits, er)"
    by (simp add: CollectData_def kubeFooCluster_def scope_eval Let_def)
  then obtain iv junits er where 3: "CollectData knownUpstream ?w = Inr (iv, Some junits, er)"
    by blast
  have 4: "?ns \<in> set ?items" by simp
  have 5: "\<not> skipped (ns_Name ?ns)" by (simp add: scope_eval)
  have 6: "distinct (map ns_Name ?items)" by simp
  from flake_pair_per_namespace [OF 1 2 3 4 5 6]
  obtain pods where pods: "listPods kubeFooCluster (ns_Name ?ns) = Inr pods"
    and cases: "filter (\<lambda>t. tc_Name t = testName knownUpstream (ns_Name ?ns)) junits =
             (let failures = checkPods knownUpstream (ns_Name ?ns) pods []
              in if failures = []
                 then [\<lparr>tc_Name = testName knownUpstream (ns_Name ?ns), tc_SystemOut = [],
                         tc_FailureOutput = None\<rparr>]
                 else [\<lparr>tc_Name = testName knownUpstream (ns_Name ?ns),
                         tc_SystemOut = Join failures nl,
                         tc_FailureOutput = Some (Join failures nl)\<rparr>,
                       \<lparr>tc_Name = testName knownUpstream (ns_Name ?ns), tc_SystemOut = [],
                         tc_FailureOutput = None\<rparr>])"
    by blast
  have "pods = [barePod]"
    using pods by (simp add: kubeFooCluster_def)
  moreover have "checkPods knownUpstream ''kube-foo'' [barePod] [] =
      [''annotation missing from pod '' @ sq @ ''p1'' @ sq
       @ ''; cannot suggest required-scc, no validated SCC on pod'']"
    by (simp add: checkPod_def barePod_def knownUpstream_def annotation_def ownerReferences_def
        allowedNamespacesOf_def isNonStandardSCC_def nonStandardSCCNamespaces_def Let_def)
  ultimately have "filter (\<lambda>t. tc_Name t = testName knownUpstream ''kube-foo'') junits =
         [\<lparr>tc_Name = testName knownUpstream ''kube-foo'',
           tc_SystemOut = ''annotation missing from pod '' @ sq @ ''p1'' @ sq
             @ ''; cannot suggest required-scc, no validated SCC on pod'',
           tc_FailureOutput = Some (''annotation missing from pod '' @ sq @ ''p1'' @ sq
             @ ''; cannot suggest required-scc, no validated SCC on pod'')\<rparr>,
          \<lparr>tc_Name = testName knownUpstream ''kube-foo'', tc_SystemOut = [],
           tc_FailureOutput = None\<rparr>]"
    using cases by simp
  with 3 show ?thesis by blast
qed

text \<open>
  C5: for a pod without the required-SCC annotation the loop body appends
  exactly one message, chosen by the first matching case on the validated SCC
  \<open>v\<close>: empty (no validated SCC, nothing to suggest); a default SCC (suggest
  it); a key of the allow-list with the namespace allowed (suggest it, noting it
  is non-standard); a key of the allow-list with the namespace not allowed
  (violation, listing the allowed namespaces); anything else (custom SCC,
  nothing to suggest).
\<close>

theorem missing_annotation_tree:
  assumes "pod_Annotations pod (RequiredSCCAnnotation up) = None"
    and "v = annotation (pod_Annotations pod) (ValidatedSCCAnnotation up)"
  shows "(v = [] \<longrightarrow>
            checkPod up nsName pod failures = failures @
              [''annotation missing from pod '' @ sq @ pod_Name pod @ sq @ ownerReferences up pod
               @ ''; cannot suggest required-scc, no validated SCC on pod''])
       \<and> (v \<noteq> [] \<and> v \<in> defaultSCCs \<longrightarrow>
            checkPod up nsName pod failures = failures @
              [''annotation missing from pod '' @ sq @ pod_Name pod @ sq @ ownerReferences up pod
               @ ''; suggested required-scc: '' @ sq @ v @ sq])
       \<and> (v \<noteq> [] \<and> v \<notin> defaultSCCs \<and> nonStandardSCCNamespaces v = Some allowed
            \<and> nsName \<in> set allowed \<longrightarrow>
            checkPod up nsName pod failures = failures @
              [''annotation missing from pod '' @ sq @ pod_Name pod @ sq @ ownerReferences up pod
               @ ''; suggested required-scc: '' @ sq @ v @ sq @ '', this is a non-standard SCC''])
       \<and> (v \<noteq> [] \<and> v \<notin> defaultSCCs \<and> nonStandardSCCNamespaces v = Some allowed
            \<and> nsName \<notin> set allowed \<longrightarrow>
            checkPod up nsName pod failures = failures @
              [''annotation missing from pod '' @ sq @ pod_Name pod @ sq @ ownerReferences up pod
               @ ''; pod is using non-standard SCC '' @ sq @ v @ sq
               @ '' not allowed in namespace '' @ sq @ nsName @ sq
               @ ''; allowed namespaces are: '' @ Join allowed '', ''])
       \<and> (v \<noteq> [] \<and> v \<notin> defaultSCCs \<and> nonStandardSCCNamespaces v = None \<longrightarrow>
            checkPod up nsName pod failures = failures @
              [''annotation missing from pod '' @ sq @ pod_Name pod @ sq @ ownerReferences up pod
               @ ''; cannot suggest required-scc, validated SCC '' @ sq @ v @ sq
               @ '' is a custom SCC''])"
  using assms
  by (simp add: checkPod_def Let_def allowedNamespacesOf_def isNonStandardSCC_def Has_def
      UnsortedList_def)

theorem missing_annotation_tree_witness:
  "checkPod knownUpstream ''openshift-machine-api'' nodeExporterPod [] =
     [''annotation missing from pod '' @ sq @ ''node-exporter-x7k2p'' @ sq
      @ '' (owners: daemonset/node-exporter)''
      @ ''; pod is using non-standard SCC '' @ sq @ ''node-exporter'' @ sq
      @ '' not allowed in namespace '' @ sq @ ''openshift-machine-api'' @ sq
      @ ''; allowed namespaces are: openshift-monitoring'']
   \<and> checkPod knownUpstream ''openshift-monitoring'' nodeExporterPod [] =
     [''annotation missing from pod '' @ sq @ ''node-exporter-x7k2p'' @ sq
      @ '' (owners: daemonset/node-exporter)''
      @ ''; suggested required-scc: '' @ sq @ ''node-exporter'' @ sq
      @ '', this is a non-standard SCC'']
   \<and> checkPod knownUpstream ''kube-foo'' barePod [] =
     [''annotation missing from pod '' @ sq @ ''p1'' @ sq
      @ ''; cannot suggest required-scc, no validated SCC on pod'']
   \<and> checkPod knownUpstream ''kube-foo'' restrictedPod [] =
     [''annotation missing from pod '' @ sq @ ''web-1'' @ sq
      @ ''; suggested required-scc: '' @ sq @ ''restricted-v2'' @ sq]
   \<and> checkPod knownUpstream ''kube-foo'' customPod [] =
     [''annotation missing from pod '' @ sq @ ''web-2'' @ sq
      @ ''; cannot suggest required-scc, validated SCC '' @ sq @ ''my-scc'' @ sq
      @ '' is a custom SCC'']"
proof -
  have req: "pod_Annotations nodeExporterPod (RequiredSCCAnnotation knownUpstream) = None"
    by (simp add: nodeExporterPod_def knownUpstream_def)
  have val: "''node-exporter'' =
      annotation (pod_Annotations nodeExporterPod) (ValidatedSCCAnnotation knownUpstream)"
    by (simp add: nodeExporterPod_def knownUpstream_def annotation_def)
  have key: "''node-exporter'' \<noteq> [] \<and> ''node-exporter'' \<notin> defaultSCCs
      \<and> nonStandardSCCNamespaces ''node-exporter'' = Some [''openshift-monitoring'']"
    by (simp add: defaultSCCs_def nonStandardSCCNamespaces_def)
  have outside: "''openshift-machine-api'' \<notin> set [''openshift-monitoring'']"
    by simp
  have inside: "''openshift-monitoring'' \<in> set [''openshift-monitoring'']"
    by simp
  have "checkPod knownUpstream ''openshift-machine-api'' nodeExporterPod [] = [] @
      [''annotation missing from pod '' @ sq @ pod_Name nodeExporterPod @ sq
       @ ownerReferences knownUpstream nodeExporterPod
       @ ''; pod is using non-standard SCC '' @ sq @ ''node-exporter'' @ sq
       @ '' not allowed in namespace '' @ sq @ ''openshift-machine-api'' @ sq
       @ ''; allowed namespaces are: '' @ Join [''openshift-monitoring''] '', '']"
    using missing_annotation_tree [OF req val] key outside by blast
  then have scenario_C: "checkPod knownUpstream ''openshift-machine-api'' nodeExporterPod [] =
     [''annotation missing from pod '' @ sq @ ''node-exporter-x7k2p'' @ sq
      @ '' (owners: daemonset/node-exporter)''
      @ ''; pod is using non-standard SCC '' @ sq @ ''node-exporter'' @ sq
      @ '' not allowed in namespace '' @ sq @ ''openshift-machine-api'' @ sq
      @ ''; allowed namespaces are: openshift-monitoring'']"
    by (simp add: ownerReferences_nodeExporterPod) (simp add: nodeExporterPod_def)
  have "checkPod knownUpstream ''openshift-monitoring'' nodeExporterPod [] = [] @
      [''annotation missing from pod '' @ sq @ pod_Name nodeExporterPod @ sq
       @ ownerReferences knownUpstream nodeExporterPod
       @ ''; suggested required-scc: '' @ sq @ ''node-exporter'' @ sq
       @ '', this is a non-standard SCC'']"
    using missing_annotation_tree [OF req val] key inside by blast
  then have scenario_B: "checkPod knownUpstream ''openshift-monitoring'' nodeExporterPod [] =
     [''annotation missing from pod '' @ sq @ ''node-exporter-x7k2p'' @ sq
      @ '' (owners: daemonset/node-exporter)''
      @ ''; suggested required-scc: '' @ sq @ ''node-exporter'' @ sq
      @ '', this is a non-standard SCC'']"
    by (simp add: ownerReferences_nodeExporterPod) (simp add: nodeExporterPod_def)
  have "pod_Annotations barePod (RequiredSCCAnnotation knownUpstream) = None"
    and "[] = annotation (pod_Annotations barePod) (ValidatedSCCAnnotation knownUpstream)"
    by (simp_all add: barePod_def knownUpstream_def annotation_def)
  from missing_annotation_tree [OF this, where nsName = "''kube-foo''" and failures = "[]"]
  have scenario_A: "checkPod knownUpstream ''kube-foo'' barePod [] =
     [''annotation missing from pod '' @ sq @ ''p1'' @ sq
      @ ''; cannot suggest required-scc, no validated SCC on pod'']"
    by (simp add: barePod_def ownerReferences_def)
  have "pod_Annotations restrictedPod (RequiredSCCAnnotation knownUpstream) = None"
    and "''restricted-v2'' =
      annotation (pod_Annotations restrictedPod) (ValidatedSCCAnnotation knownUpstream)"
    by (simp_all add: restrictedPod_def knownUpstream_def annotation_def)
  from missing_annotation_tree [OF this, where nsName = "''kube-foo''" and failures = "[]"]
  have default_scc: "checkPod knownUpstream ''kube-foo'' restrictedPod [] =
     [''annotation missing from pod '' @ sq @ ''web-1'' @ sq
      @ ''; suggested required-scc: '' @ sq @ ''restricted-v2'' @ sq]"
    by (simp add: restrictedPod_def ownerReferences_def defaultSCCs_def)
  have "pod_Annotations customPod (RequiredSCCAnnotation knownUpstream) = None"
    and "''my-scc'' = annotation (pod_Annotations customPod) (ValidatedSCCAnnotation knownUpstream)"
    by (simp_all add: customPod_def knownUpstream_def annotation_def)
  from missing_annotation_tree [OF this, where nsName = "''kube-foo''" and failures = "[]"]
  have custom_scc: "checkPod knownUpstream ''kube-foo'' customPod [] =
     [''annotation missing from pod '' @ sq @ ''web-2'' @ sq
      @ ''; cannot suggest required-scc, validated SCC '' @ sq @ ''my-scc'' @ sq
      @ '' is a custom SCC'']"
    by (simp add: customPod_def ownerReferences_def defaultSCCs_def nonStandardSCCNamespaces_def)
  from scenario_C scenario_B scenario_A default_scc custom_scc show ?thesis
    by (intro conjI)
qed

text \<open>
  C6: for a pod that has the required-SCC annotation nothing is recorded when
  the validated SCC is not a key of the allow-list, whatever the namespace, nor
  when it is a key and the namespace is allowed; when it is a key and the
  namespace is not allowed, the non-standard SCC violation is recorded.
\<close>

theorem required_annotation_present:
  assumes "pod_Annotations pod (RequiredSCCAnnotation up) = Some r"
    and "v = annotation (pod_Annotations pod) (ValidatedSCCAnnotation up)"
  shows "(nonStandardSCCNamespaces v = None \<longrightarrow> checkPod up nsName pod failures = failures)
       \<and> (nonStandardSCCNamespaces v = Some allowed \<and> nsName \<in> set allowed \<longrightarrow>
            checkPod up nsName pod failures = failures)
       \<and> (nonStandardSCCNamespaces v = Some allowed \<and> nsName \<notin> set allowed \<longrightarrow>
            checkPod up nsName pod failures = failures @
              [''pod '' @ sq @ pod_Name pod @ sq @ '' has a non-standard SCC '' @ sq @ v @ sq
               @ '' not allowed in namespace '' @ sq @ nsName @ sq
               @ ''; allowed namespaces are: '' @ Join allowed '', ''])"
  using assms
  by (simp add: checkPod_def Let_def allowedNamespacesOf_def isNonStandardSCC_def Has_def
      UnsortedList_def)

theorem required_annotation_present_witness:
  "checkPod knownUpstream ''kube-foo'' annotatedRestrictedPod [] = []
   \<and> checkPod knownUpstream ''openshift-monitoring'' annotatedPod [] = []
   \<and> checkPod knownUpstream ''openshift-machine-api'' annotatedPod [] =
       [''pod '' @ sq @ ''node-exporter-q9w4z'' @ sq @ '' has a non-standard SCC '' @ sq
        @ ''node-exporter'' @ sq @ '' not allowed in namespace '' @ sq
        @ ''openshift-machine-api'' @ sq @ ''; allowed namespaces are: openshift-monitoring'']"
proof -
  have req: "pod_Annotations annotatedPod (RequiredSCCAnnotation knownUpstream) = Some ''node-exporter''"
    by (simp add: annotatedPod_def knownUpstream_def)
  have val: "''node-exporter'' =
      annotation (pod_Annotations annotatedPod) (ValidatedSCCAnnotation knownUpstream)"
    by (simp add: annotatedPod_def knownUpstream_def annotation_def)
  have allowed: "nonStandardSCCNamespaces ''node-exporter'' = Some [''openshift-monitoring'']"
    by (simp add: nonStandardSCCNamespaces_def)
  have "checkPod knownUpstream ''openshift-monitoring'' annotatedPod [] = []"
    using required_annotation_present [OF req val, where allowed = "[''openshift-monitoring'']"
        and nsName = "''openshift-monitoring''" and failures = "[]"] allowed
    by simp
  moreover have "checkPod knownUpstream ''openshift-machine-api'' annotatedPod [] = [] @
       [''pod '' @ sq @ pod_Name annotatedPod @ sq @ '' has a non-standard SCC '' @ sq
        @ ''node-exporter'' @ sq @ '' not allowed in namespace '' @ sq
        @ ''openshift-machine-api'' @ sq @ ''; allowed namespaces are: ''
        @ Join [''openshift-monitoring''] '', '']"
    using required_annotation_present [OF req val, where allowed = "[''openshift-monitoring'']"
        and nsName = "''openshift-machine-api''" and failures = "[]"] allowed
    by simp
  moreover have "checkPod knownUpstream ''kube-foo'' annotatedRestrictedPod [] = []"
  proof -
    have "pod_Annotations annotatedRestrictedPod (RequiredSCCAnnotation knownUpstream) =
        Some ''restricted-v2''"
      and "''restricted-v2'' =
        annotation (pod_Annotations annotatedRestrictedPod) (ValidatedSCCAnnotation knownUpstream)"
      by (simp_all add: annotatedRestrictedPod_def knownUpstream_def annotation_def)
    from required_annotation_present [OF this, where nsName = "''kube-foo''"
        and failures = "[]"]
    show ?thesis
      by (simp add: nonStandardSCCNamespaces_def)
  qed
  ultimately show ?thesis
    by (simp add: annotatedPod_def)
qed

text \<open>
  C7: after a successful \<open>CollectData\<close>, a namespace of the listing has test
  cases under its name if and only if its name is \<open>default\<close>, starts with
  \<open>kube-\<close>, or is \<open>openshift\<close> or starts with \<open>openshift-\<close> without starting
  with \<open>openshift-must-gather-\<close>; the result of \<open>CollectData\<close> depends on the
  pods of such namespaces only; and the pods of every such namespace were
  listed and each of them classified: the test cases returned are, namespace
  by namespace in the order of the listing and for the namespaces in scope
  only, the ones that the messages of \<open>checkPod\<close> on the pods of the namespace
  give.
\<close>

theorem scope_filter:
  assumes "kubeClient w = Clientset (Some c)" and "listNamespaces c = Inr items"
  shows "(CollectData up w = Inr (iv, Some junits, er) \<and> ns \<in> set items \<longrightarrow>
            (testName up (ns_Name ns) \<in> set (map tc_Name junits) \<longleftrightarrow>
               ns_Name ns = ''default'' \<or> prefix ''kube-'' (ns_Name ns)
               \<or> ((ns_Name ns = ''openshift'' \<or> prefix ''openshift-'' (ns_Name ns))
                   \<and> \<not> prefix ''openshift-must-gather-'' (ns_Name ns))))
         \<and> (kubeClient w' = Clientset (Some c') \<and> listNamespaces c' = Inr items
              \<and> (\<forall>n. inScope n \<longrightarrow> listPods c' n = listPods c n) \<longrightarrow>
            CollectData up w' = CollectData up w)
         \<and> (CollectData up w = Inr (iv, Some junits, er) \<longrightarrow>
              (\<forall>n \<in> set items. inScope (ns_Name n) \<longrightarrow>
                 (\<exists>pods. listPods c (ns_Name n) = Inr pods))
              \<and> iv = None \<and> er = None
              \<and> junits =
                  concat
                    (map (\<lambda>n.
                       let failures =
                             concat (map (\<lambda>pod. checkPod up (ns_Name n) pod [])
                                       (podsOf c (ns_Name n)))
                       in if failures = []
                          then [\<lparr>tc_Name = testName up (ns_Name n), tc_SystemOut = [],
                                  tc_FailureOutput = None\<rparr>]
                          else [\<lparr>tc_Name = testName up (ns_Name n),
                                  tc_SystemOut = Join failures nl,
                                  tc_FailureOutput = Some (Join failures nl)\<rparr>,
                                \<lparr>tc_Name = testName up (ns_Name n), tc_SystemOut = [],
                                  tc_FailureOutput = None\<rparr>])
                     (filter (\<lambda>n. inScope (ns_Name n)) items)))"
proof (intro conjI impI)
  assume a: "CollectData up w = Inr (iv, Some junits, er) \<and> ns \<in> set items"
  then have run: "collectNamespaces up c items [] = (iv, Some junits, er)"
    using assms by (simp add: CollectData_def)
  have "testName up (ns_Name ns) \<in> set (map tc_Name junits) \<longleftrightarrow> \<not> skipped (ns_Name ns)"
    unfolding collect_names [OF run] using a by (auto simp: testName_inj)
  then show "testName up (ns_Name ns) \<in> set (map tc_Name junits) \<longleftrightarrow>
      ns_Name ns = ''default'' \<or> prefix ''kube-'' (ns_Name ns)
      \<or> ((ns_Name ns = ''openshift'' \<or> prefix ''openshift-'' (ns_Name ns))
          \<and> \<not> prefix ''openshift-must-gather-'' (ns_Name ns))"
    by (simp add: skipped_iff inScope_def)
next
  assume b: "kubeClient w' = Clientset (Some c') \<and> listNamespaces c' = Inr items
       \<and> (\<forall>n. inScope n \<longrightarrow> listPods c' n = listPods c n)"
  have "collectNamespaces up c' items [] = collectNamespaces up c items []"
    by (rule collect_cong) (use b in \<open>simp add: skipped_iff\<close>)
  then show "CollectData up w' = CollectData up w"
    using assms b by (simp add: CollectData_def)
next
  assume "CollectData up w = Inr (iv, Some junits, er)"
  then have run: "collectNamespaces up c items [] = (iv, Some junits, er)"
    using assms by (simp add: CollectData_def)
  have nofail: "\<forall>n \<in> set items. \<not> listingFails c n"
    using run by (rule collect_some_no_failure)
  show "\<forall>n \<in> set items. inScope (ns_Name n) \<longrightarrow> (\<exists>pods. listPods c (ns_Name n) = Inr pods)"
  proof (intro ballI impI)
    fix n
    assume "n \<in> set items" and "inScope (ns_Name n)"
    then have "\<not> isl (listPods c (ns_Name n))"
      using nofail by (auto simp: listingFails_def skipped_iff)
    then show "\<exists>pods. listPods c (ns_Name n) = Inr pods"
      by (cases "listPods c (ns_Name n)") auto
  qed
  have result: "(iv, Some junits, er) =
      (None,
       Some ([] @ concat (map (\<lambda>n. namespaceCases up (ns_Name n) (podsOf c (ns_Name n)))
                            (filter (\<lambda>n. \<not> skipped (ns_Name n)) items))),
       None)"
    using collect_ok [OF nofail, of up "[]"] run by simp
  then show "iv = None" and "er = None"
    by simp_all
  from result show "junits =
      concat
        (map (\<lambda>n.
           let failures =
                 concat (map (\<lambda>pod. checkPod up (ns_Name n) pod []) (podsOf c (ns_Name n)))
           in if failures = []
              then [\<lparr>tc_Name = testName up (ns_Name n), tc_SystemOut = [],
                      tc_FailureOutput = None\<rparr>]
              else [\<lparr>tc_Name = testName up (ns_Name n), tc_SystemOut = Join failures nl,
                      tc_FailureOutput = Some (Join failures nl)\<rparr>,
                    \<lparr>tc_Name = testName up (ns_Name n), tc_SystemOut = [],
                      tc_FailureOutput = None\<rparr>])
         (filter (\<lambda>n. inScope (ns_Name n)) items))"
    unfolding namespaceCases_def checkPods_messages passCase_def failCase_def Let_def
    by (simp add: skipped_iff)
qed

theorem scope_filter_witness:
  "\<exists>iv junits er.
     CollectData knownUpstream \<lparr>kubeClient = Clientset (Some kubeFooCluster)\<rparr> = Inr (iv, Some junits, er)
     \<and> testName knownUpstream ''kube-foo'' \<in> set (map tc_Name junits)
     \<and> testName knownUpstream ''myproject'' \<notin> set (map tc_Name junits)
     \<and> CollectData knownUpstream \<lparr>kubeClient = Clientset (Some kubeFooOpenCluster)\<rparr> =
         CollectData knownUpstream \<lparr>kubeClient = Clientset (Some kubeFooCluster)\<rparr>
     \<and> junits =
         [\<lparr>tc_Name = testName knownUpstream ''kube-foo'',
           tc_SystemOut = ''annotation missing from pod '' @ sq @ ''p1'' @ sq
             @ ''; cannot suggest required-scc, no validated SCC on pod'',
           tc_FailureOutput = Some (''annotation missing from pod '' @ sq @ ''p1'' @ sq
             @ ''; cannot suggest required-scc, no validated SCC on pod'')\<rparr>,
          \<lparr>tc_Name = testName knownUpstream ''kube-foo'', tc_SystemOut = [],
           tc_FailureOutput = None\<rparr>]"
proof -
  let ?w = "\<lparr>kubeClient = Clientset (Some kubeFooCluster)\<rparr>"
  let ?items = "[\<lparr>ns_Name = ''kube-foo''\<rparr>, \<lparr>ns_Name = ''myproject''\<rparr>]"
  have 1: "kubeClient ?w = Clientset (Some kubeFooCluster)" by simp
  have 2: "listNamespaces kubeFooCluster = Inr ?items"
    by (simp add: kubeFooCluster_def)
  have "\<exists>iv junits er. CollectData knownUpstream ?w = Inr (iv, Some junits, er)"
    by (simp add: CollectData_def kubeFooCluster_def scope_eval Let_def)
  then obtain iv junits er where 3: "CollectData knownUpstream ?w = Inr (iv, Some junits, er)"
    by blast
  note sf = scope_filter [OF 1 2, where up = knownUpstream and iv = iv and junits = junits and er = er,
      THEN conjunct1, rule_format]
  have "testName knownUpstream ''kube-foo'' \<in> set (map tc_Name junits)"
    using sf [where ns = "\<lparr>ns_Name = ''kube-foo''\<rparr>"] 3 by simp
  moreover have "testName knownUpstream ''myproject'' \<notin> set (map tc_Name junits)"
    using sf [where ns = "\<lparr>ns_Name = ''myproject''\<rparr>"] 3 by simp
  moreover have "CollectData knownUpstream \<lparr>kubeClient = Clientset (Some kubeFooOpenCluster)\<rparr> =
         CollectData knownUpstream ?w"
  proof -
    have "\<not> inScope ''myproject''"
      by (simp add: inScope_def)
    then have same: "\<forall>n. inScope n \<longrightarrow>
        listPods kubeFooOpenCluster n = listPods kubeFooCluster n"
      by (auto simp: kubeFooOpenCluster_def kubeFooCluster_def)
    have open_cluster: "kubeClient \<lparr>kubeClient = Clientset (Some kubeFooOpenCluster)\<rparr> =
        Clientset (Some kubeFooOpenCluster) \<and> listNamespaces kubeFooOpenCluster = Inr ?items"
      by (simp add: kubeFooOpenCluster_def)
    from scope_filter [OF 1 2, where up = knownUpstream
        and w' = "\<lparr>kubeClient = Clientset (Some kubeFooOpenCluster)\<rparr>" and c' = kubeFooOpenCluster,
        THEN conjunct2, THEN conjunct1] open_cluster same
    show ?thesis by blast
  qed
  moreover have "junits =
         [\<lparr>tc_Name = testName knownUpstream ''kube-foo'',
           tc_SystemOut = ''annotation missing from pod '' @ sq @ ''p1'' @ sq
             @ ''; cannot suggest required-scc, no validated SCC on pod'',
           tc_FailureOutput = Some (''annotation missing from pod '' @ sq @ ''p1'' @ sq
             @ ''; cannot suggest required-scc, no validated SCC on pod'')\<rparr>,
          \<lparr>tc_Name = testName knownUpstream ''kube-foo'', tc_SystemOut = [],
           tc_FailureOutput = None\<rparr>]"
  proof -
    have scope: "filter (\<lambda>n. inScope (ns_Name n)) ?items = [\<lparr>ns_Name = ''kube-foo''\<rparr>]"
      by (simp add: inScope_def)
    have pods: "podsOf kubeFooCluster ''kube-foo'' = [barePod]"
      by (simp add: podsOf_def kubeFooCluster_def)
    have bare: "checkPod knownUpstream ''kube-foo'' barePod [] =
        [''annotation missing from pod '' @ sq @ ''p1'' @ sq
         @ ''; cannot suggest required-scc, no validated SCC on pod'']"
      by (simp add: checkPod_def barePod_def knownUpstream_def annotation_def ownerReferences_def
          allowedNamespacesOf_def isNonStandardSCC_def nonStandardSCCNamespaces_def Let_def)
    from scope_filter [OF 1 2, where up = knownUpstream and iv = iv and junits = junits
        and er = er, THEN conjunct2, THEN conjunct2] 3
    have "junits =
        concat
          (map (\<lambda>n.
             let failures =
                   concat (map (\<lambda>pod. checkPod knownUpstream (ns_Name n) pod [])
                             (podsOf kubeFooCluster (ns_Name n)))
             in if failures = []
                then [\<lparr>tc_Name = testName knownUpstream (ns_Name n), tc_SystemOut = [],
                        tc_FailureOutput = None\<rparr>]
                else [\<lparr>tc_Name = testName knownUpstream (ns_Name n),
                        tc_SystemOut = Join failures nl,
                        tc_FailureOutput = Some (Join failures nl)\<rparr>,
                      \<lparr>tc_Name = testName knownUpstream (ns_Name n), tc_SystemOut = [],
                        tc_FailureOutput = None\<rparr>])
           (filter (\<lambda>n. inScope (ns_Name n)) ?items))"
      by blast
    then show ?thesis
      unfolding scope by (simp add: pods bare)
  qed
  ultimately show ?thesis
    using 3 by blast
qed

text \<open>
  C9: when listing the namespaces fails, \<open>CollectData\<close> returns that error and
  neither intervals nor test cases; when listing the pods of a namespace in
  scope fails, it returns the error of the first such namespace and neither
  intervals nor test cases, the ones of the namespaces processed before
  included.
\<close>

theorem listing_error_aborts:
  assumes "kubeClient w = Clientset (Some c)"
  shows "(listNamespaces c = Inl e \<longrightarrow> CollectData up w = Inr (None, None, Some e))
       \<and> (listNamespaces c = Inr (pre @ ns # post) \<and> (\<forall>n \<in> set pre. \<not> listingFails c n)
            \<and> \<not> skipped (ns_Name ns) \<and> listPods c (ns_Name ns) = Inl e \<longrightarrow>
          CollectData up w = Inr (None, None, Some e))
       \<and> (listNamespaces c = Inr items \<and> (\<exists>n \<in> set items. listingFails c n) \<longrightarrow>
          (\<exists>n e'. n \<in> set items \<and> \<not> skipped (ns_Name n) \<and> listPods c (ns_Name n) = Inl e'
                 \<and> CollectData up w = Inr (None, None, Some e')))"
proof (intro conjI impI)
  assume "listNamespaces c = Inl e"
  then show "CollectData up w = Inr (None, None, Some e)"
    using assms by (simp add: CollectData_def)
next
  assume a: "listNamespaces c = Inr (pre @ ns # post) \<and> (\<forall>n \<in> set pre. \<not> listingFails c n)
       \<and> \<not> skipped (ns_Name ns) \<and> listPods c (ns_Name ns) = Inl e"
  then have "collectNamespaces up c (pre @ ns # post) [] = (None, None, Some e)"
    by (intro collect_err) simp_all
  then show "CollectData up w = Inr (None, None, Some e)"
    using assms a by (simp add: CollectData_def)
next
  assume a: "listNamespaces c = Inr items \<and> (\<exists>n \<in> set items. listingFails c n)"
  then obtain pre n post where split: "items = pre @ n # post" and n: "listingFails c n"
    and pre: "\<forall>m \<in> set pre. \<not> listingFails c m"
    using split_list_first_prop [of items "listingFails c"] by blast
  from n obtain e' where e': "listPods c (ns_Name n) = Inl e'" and sc: "\<not> skipped (ns_Name n)"
    by (cases "listPods c (ns_Name n)") (auto simp: listingFails_def)
  have "collectNamespaces up c (pre @ n # post) [] = (None, None, Some e')"
    using pre sc e' by (rule collect_err)
  then have "CollectData up w = Inr (None, None, Some e')"
    using assms a split by (simp add: CollectData_def)
  then show "\<exists>n e'. n \<in> set items \<and> \<not> skipped (ns_Name n) \<and> listPods c (ns_Name n) = Inl e'
                 \<and> CollectData up w = Inr (None, None, Some e')"
    using split sc e' by auto
qed

theorem listing_error_aborts_witness:
  "CollectData knownUpstream \<lparr>kubeClient = Clientset (Some unlistableCluster)\<rparr> =
     Inr (None, None, Some (Error ''Unauthorized''))
   \<and> CollectData knownUpstream \<lparr>kubeClient = Clientset (Some failingPodsCluster)\<rparr> =
     Inr (None, None, Some (Error ''timeout''))
   \<and> (\<exists>e'. CollectData knownUpstream
          \<lparr>kubeClient = Clientset (Some (kubeFooOpenCluster\<lparr>listPods := \<lambda>n. Inl (Error ''gone'')\<rparr>))\<rparr> =
        Inr (None, None, Some e'))"
proof -
  have "CollectData knownUpstream \<lparr>kubeClient = Clientset (Some unlistableCluster)\<rparr> =
     Inr (None, None, Some (Error ''Unauthorized''))"
    using listing_error_aborts [where w = "\<lparr>kubeClient = Clientset (Some unlistableCluster)\<rparr>"
        and c = unlistableCluster and e = "Error ''Unauthorized''" and up = knownUpstream]
    by (simp add: unlistableCluster_def)
  moreover have "CollectData knownUpstream \<lparr>kubeClient = Clientset (Some failingPodsCluster)\<rparr> =
     Inr (None, None, Some (Error ''timeout''))"
  proof -
    have a: "listNamespaces failingPodsCluster =
        Inr ([\<lparr>ns_Name = ''kube-system''\<rparr>] @ \<lparr>ns_Name = ''default''\<rparr> # [])"
      by (simp add: failingPodsCluster_def)
    have b: "\<forall>n \<in> set [\<lparr>ns_Name = ''kube-system''\<rparr>]. \<not> listingFails failingPodsCluster n"
      by (simp add: listingFails_def failingPodsCluster_def)
    have c: "\<not> skipped (ns_Name \<lparr>ns_Name = ''default''\<rparr>)"
      by (simp add: scope_eval)
    have d: "listPods failingPodsCluster (ns_Name \<lparr>ns_Name = ''default''\<rparr>) = Inl (Error ''timeout'')"
      by (simp add: failingPodsCluster_def)
    have w: "kubeClient \<lparr>kubeClient = Clientset (Some failingPodsCluster)\<rparr> = Clientset (Some failingPodsCluster)"
      by simp
    from listing_error_aborts [OF w, where pre = "[\<lparr>ns_Name = ''kube-system''\<rparr>]"
        and ns = "\<lparr>ns_Name = ''default''\<rparr>" and post = "[]" and e = "Error ''timeout''"
        and up = knownUpstream]
      a b c d
    show ?thesis by blast
  qed
  moreover have "\<exists>e'. CollectData knownUpstream
          \<lparr>kubeClient = Clientset (Some (kubeFooOpenCluster\<lparr>listPods := \<lambda>n. Inl (Error ''gone'')\<rparr>))\<rparr> =
        Inr (None, None, Some e')"
  proof -
    let ?c = "kubeFooOpenCluster\<lparr>listPods := \<lambda>n. Inl (Error ''gone'')\<rparr>"
    let ?items = "[\<lparr>ns_Name = ''kube-foo''\<rparr>, \<lparr>ns_Name = ''myproject''\<rparr>]"
    have w: "kubeClient \<lparr>kubeClient = Clientset (Some ?c)\<rparr> = Clientset (Some ?c)"
      by simp
    have a: "listNamespaces ?c = Inr ?items \<and> (\<exists>n \<in> set ?items. listingFails ?c n)"
      by (simp add: kubeFooOpenCluster_def listingFails_def scope_eval)
    from listing_error_aborts [OF w, where items = ?items and up = knownUpstream] a
    show ?thesis by blast
  qed
  ultimately show ?thesis by (intro conjI)
qed

text \<open>
  C10: a checker on which \<open>StartCollection\<close> did not run holds the nil
  interface, and \<open>CollectData\<close> returns no intervals, no test cases and no
  error. A checker on which \<open>StartCollection\<close> failed holds the nil
  \<open>*Clientset\<close> that \<open>NewForConfig\<close> returned with its error: the test against
  \<open>nil\<close> does not see it, and \<open>CollectData\<close> panics.
\<close>

theorem CollectData_without_client:
  "CollectData up NewAnalyzer = Inr (None, None, None)
   \<and> StartCollection (None, Some err) NewAnalyzer = (\<lparr>kubeClient = Clientset None\<rparr>, Some err)
   \<and> CollectData up (fst (StartCollection (None, Some err) NewAnalyzer)) =
       Inl NilPointerDereference"
  by (simp add: CollectData_def StartCollection_def NewAnalyzer_def)

section \<open>Lemmas on float64 arithmetic\<close>

text \<open>Rules that evaluate the float64 operations on numerals.\<close>

lemmas float64_eval = float64_of_int64_def float64_mul_def int64_of_float64_def float64_round_def
  floorlog2_def roundHalfEven_def bitlen.simps Let_def power_int_def power_one_over

lemma bitlen_nonpos: "n \<le> 0 \<Longrightarrow> bitlen n = 0"
  by (simp add: bitlen.simps)

lemma bitlen_pos: "0 < n \<Longrightarrow> bitlen n = 1 + bitlen (n div 2)"
  by (subst bitlen.simps) simp

lemma bitlen_ge0: "0 \<le> bitlen n"
  by (induction n rule: bitlen.induct) (subst bitlen.simps, simp)

lemma bitlen_bounds:
  "0 < n \<Longrightarrow> 1 \<le> bitlen n \<and> 2 ^ nat (bitlen n - 1) \<le> n \<and> n < 2 ^ nat (bitlen n)"
proof (induction n rule: bitlen.induct)
  case (1 n)
  show ?case
  proof (cases "n = 1")
    case True
    then show ?thesis
      by (simp add: bitlen_pos bitlen_nonpos)
  next
    case False
    with "1.prems" have half: "0 < n div 2" by auto
    then have ih: "1 \<le> bitlen (n div 2)" "2 ^ nat (bitlen (n div 2) - 1) \<le> n div 2"
      "n div 2 < 2 ^ nat (bitlen (n div 2))"
      using "1.IH" "1.prems" by auto
    have b: "bitlen n = 1 + bitlen (n div 2)"
      using "1.prems" by (rule bitlen_pos)
    have e1: "nat (bitlen n - 1) = Suc (nat (bitlen (n div 2) - 1))"
      using b ih(1) by auto
    have e2: "nat (bitlen n) = Suc (nat (bitlen (n div 2)))"
      using b ih(1) by auto
    have "2 * 2 ^ nat (bitlen (n div 2) - 1) \<le> n"
      using ih(2) by auto
    moreover have "n < 2 * 2 ^ nat (bitlen (n div 2))"
      using ih(3) by auto
    ultimately show ?thesis
      using b ih(1) e1 e2 by simp
  qed
qed

lemma roundHalfEven_error: "\<bar>of_int (roundHalfEven y) - y\<bar> \<le> 1 / 2"
proof -
  have "of_int \<lfloor>y\<rfloor> \<le> y" "y < of_int \<lfloor>y\<rfloor> + 1"
    by linarith+
  then show ?thesis
    by (auto simp: roundHalfEven_def Let_def)
qed

lemma powi_nonneg: "0 \<le> k \<Longrightarrow> (2::real) powi k = 2 ^ nat k"
  by (simp add: power_int_def)

lemma powi_neg: "0 \<le> k \<Longrightarrow> (2::real) powi (- k) = 1 / 2 ^ nat k"
  by (cases "k = 0") (simp_all add: power_int_def field_simps)

lemma floorlog2_bounds:
  assumes "0 < x"
  shows "2 powi floorlog2 x \<le> x \<and> x < 2 powi (floorlog2 x + 1)"
proof (cases "1 \<le> x")
  case True
  define n where "n = \<lfloor>x\<rfloor>"
  have n: "0 < n" "of_int n \<le> x" "x < of_int n + 1"
    using True by (auto simp: n_def)
  from bitlen_bounds [OF n(1)]
  have b: "1 \<le> bitlen n" "2 ^ nat (bitlen n - 1) \<le> n" "n < 2 ^ nat (bitlen n)"
    by auto
  have fl: "floorlog2 x = bitlen n - 1"
    using True by (simp add: floorlog2_def n_def)
  have p1: "2 powi floorlog2 x = (2::real) ^ nat (bitlen n - 1)"
    using b(1) by (simp add: fl powi_nonneg)
  have p2: "2 powi (floorlog2 x + 1) = (2::real) ^ nat (bitlen n)"
    using b(1) by (simp add: fl powi_nonneg)
  have "(2::real) ^ nat (bitlen n - 1) \<le> of_int n"
    using b(2) by (metis of_int_le_iff of_int_numeral of_int_power)
  then have lower: "2 powi floorlog2 x \<le> x"
    unfolding p1 using n(2) by linarith
  have "n + 1 \<le> 2 ^ nat (bitlen n)"
    using b(3) by simp
  then have "of_int (n + 1) \<le> (2::real) ^ nat (bitlen n)"
    by (metis of_int_le_iff of_int_numeral of_int_power)
  then have "of_int n + 1 \<le> (2::real) ^ nat (bitlen n)"
    by simp
  then have upper: "x < 2 powi (floorlog2 x + 1)"
    unfolding p2 using n(3) by linarith
  from lower upper show ?thesis ..
next
  case False
  define y where "y = 1 / x"
  define m where "m = \<lceil>y\<rceil> - 1"
  have y: "1 < y" "x = 1 / y"
    using False assms by (auto simp: y_def)
  have m: "0 < m" "of_int m < y" "y \<le> of_int m + 1"
    using y(1) by (auto simp: m_def) linarith+
  from bitlen_bounds [OF m(1)]
  have b: "1 \<le> bitlen m" "2 ^ nat (bitlen m - 1) \<le> m" "m < 2 ^ nat (bitlen m)"
    by auto
  have fl: "floorlog2 x = - bitlen m"
    using False by (simp add: floorlog2_def m_def y_def)
  have p1: "2 powi floorlog2 x = 1 / (2::real) ^ nat (bitlen m)"
    using b(1) by (simp add: fl powi_neg)
  have p2: "2 powi (floorlog2 x + 1) = 1 / (2::real) ^ nat (bitlen m - 1)"
    using powi_neg [of "bitlen m - 1"] b(1) by (simp add: fl)
  have "m + 1 \<le> 2 ^ nat (bitlen m)"
    using b(3) by simp
  then have "of_int (m + 1) \<le> (2::real) ^ nat (bitlen m)"
    by (metis of_int_le_iff of_int_numeral of_int_power)
  then have "of_int m + 1 \<le> (2::real) ^ nat (bitlen m)"
    by simp
  then have "y \<le> 2 ^ nat (bitlen m)"
    using m(3) by linarith
  then have "1 / 2 ^ nat (bitlen m) \<le> 1 / y"
    using y(1) by (intro divide_left_mono) auto
  then have "2 powi floorlog2 x \<le> 1 / y"
    unfolding p1 .
  then have lower: "2 powi floorlog2 x \<le> x"
    using y(2) by simp
  have "(2::real) ^ nat (bitlen m - 1) \<le> of_int m"
    using b(2) by (metis of_int_le_iff of_int_numeral of_int_power)
  then have "2 ^ nat (bitlen m - 1) < y"
    using m(2) by linarith
  then have "1 / y < 1 / 2 ^ nat (bitlen m - 1)"
    using y(1) by (intro divide_strict_left_mono) auto
  then have "1 / y < 2 powi (floorlog2 x + 1)"
    unfolding p2 .
  then have upper: "x < 2 powi (floorlog2 x + 1)"
    using y(2) by simp
  from lower upper show ?thesis ..
qed

lemma float64_round_error:
  assumes "x \<noteq> 0"
  shows "\<bar>float64_round x - x\<bar> \<le> 2 powi (floorlog2 \<bar>x\<bar> - 53)"
    and "\<bar>float64_round x - x\<bar> \<le> \<bar>x\<bar> / 2 ^ 53"
proof -
  define u :: real where "u = 2 powi (floorlog2 \<bar>x\<bar> - 52)"
  have u: "0 < u" by (simp add: u_def)
  have fr: "float64_round x = of_int (roundHalfEven (x / u)) * u"
    using assms by (simp add: float64_round_def u_def Let_def)
  have "float64_round x - x = (of_int (roundHalfEven (x / u)) - x / u) * u"
    using u by (simp add: fr field_simps)
  then have "\<bar>float64_round x - x\<bar> = \<bar>of_int (roundHalfEven (x / u)) - x / u\<bar> * u"
    using u by (simp add: abs_mult)
  also have "\<dots> \<le> (1 / 2) * u"
    using roundHalfEven_error [of "x / u"] u by (intro mult_right_mono) auto
  also have "(1 / 2) * u = 2 powi (floorlog2 \<bar>x\<bar> - 53)"
    by (simp add: u_def power_int_diff)
  finally show a: "\<bar>float64_round x - x\<bar> \<le> 2 powi (floorlog2 \<bar>x\<bar> - 53)" .
  have "2 powi floorlog2 \<bar>x\<bar> \<le> \<bar>x\<bar>"
    using floorlog2_bounds [of "\<bar>x\<bar>"] assms by simp
  then have "2 powi floorlog2 \<bar>x\<bar> / 2 ^ 53 \<le> \<bar>x\<bar> / 2 ^ 53"
    by (simp add: divide_right_mono)
  moreover have "(2::real) powi (floorlog2 \<bar>x\<bar> - 53) = 2 powi floorlog2 \<bar>x\<bar> / 2 ^ 53"
    by (simp add: power_int_diff)
  ultimately show "\<bar>float64_round x - x\<bar> \<le> \<bar>x\<bar> / 2 ^ 53"
    using a by simp
qed

lemma float64_round_rel: "\<bar>float64_round x - x\<bar> \<le> \<bar>x\<bar> / 2 ^ 53"
proof (cases "x = 0")
  case True
  then show ?thesis by (simp add: float64_round_def)
next
  case False
  then show ?thesis by (rule float64_round_error(2))
qed

text \<open>
  The constants of the function as \<open>float64\<close> values: \<open>0.08\<close> is
  \<open>0x3FB47AE147AE147B\<close>, \<open>0.15\<close> is \<open>0x3FC3333333333333\<close> and \<open>0.23\<close> is
  \<open>0x3FCD70A3D70A3D71\<close>.
\<close>

lemma float64_0_08: "float64_round (8 / 100) = 5764607523034235 / 2 ^ 56"
  by (simp add: float64_eval)

lemma float64_0_15: "float64_round (15 / 100) = 5404319552844595 / 2 ^ 55"
  by (simp add: float64_eval)

lemma float64_0_23: "float64_round (23 / 100) = 8286623314361713 / 2 ^ 55"
  by (simp add: float64_eval)

lemma int64_of_float64_bounds:
  "\<bar>real_of_int (int64_of_float64 p) - p\<bar> < 1"
  "\<bar>real_of_int (int64_of_float64 p)\<bar> \<le> \<bar>p\<bar>"
  "0 \<le> p \<Longrightarrow> 0 \<le> int64_of_float64 p"
  "p \<le> 0 \<Longrightarrow> int64_of_float64 p \<le> 0"
proof -
  have f: "of_int \<lfloor>p\<rfloor> \<le> p" "p < of_int \<lfloor>p\<rfloor> + 1"
    and c: "p \<le> of_int \<lceil>p\<rceil>" "of_int \<lceil>p\<rceil> < p + 1"
    by linarith+
  show "\<bar>real_of_int (int64_of_float64 p) - p\<bar> < 1"
  proof (cases "0 \<le> p")
    case True
    then have "int64_of_float64 p = \<lfloor>p\<rfloor>" by (simp add: int64_of_float64_def)
    then show ?thesis using f by linarith
  next
    case False
    then have "int64_of_float64 p = \<lceil>p\<rceil>" by (simp add: int64_of_float64_def)
    then show ?thesis using c by linarith
  qed
  show "\<bar>real_of_int (int64_of_float64 p)\<bar> \<le> \<bar>p\<bar>"
  proof (cases "0 \<le> p")
    case True
    then have "0 \<le> \<lfloor>p\<rfloor>" by simp
    then show ?thesis using True f by (simp add: int64_of_float64_def)
  next
    case False
    then have "\<lceil>p\<rceil> \<le> 0" by (simp add: ceiling_le_iff)
    then show ?thesis using False c by (simp add: int64_of_float64_def)
  qed
  show "0 \<le> p \<Longrightarrow> 0 \<le> int64_of_float64 p"
    by (simp add: int64_of_float64_def)
  show "p \<le> 0 \<Longrightarrow> int64_of_float64 p \<le> 0"
    by (auto simp: int64_of_float64_def ceiling_le_iff)
qed

text \<open>
  Scaling a duration by a factor between \<open>0\<close> and \<open>1/4\<close>: the result is within
  one nanosecond plus the rounding error of the exact product, and not larger
  in magnitude than the duration.
\<close>

lemma scaled_duration_bounds:
  fixes n :: int and c :: real
  assumes c: "0 \<le> c" "c \<le> 1 / 4"
  defines "d \<equiv> int64_of_float64 (float64_mul (float64_of_int64 n) c)"
  shows "\<bar>real_of_int d - real_of_int n * c\<bar> < 1 + \<bar>real_of_int n\<bar> / 2 ^ 53"
    and "\<bar>d\<bar> \<le> \<bar>n\<bar>"
proof -
  define N :: real where "N = \<bar>of_int n\<bar>"
  define a where "a = float64_round (of_int n)"
  define p where "p = float64_round (a * c)"
  have d: "d = int64_of_float64 p"
    by (simp add: d_def p_def a_def float64_mul_def float64_of_int64_def)
  have N: "0 \<le> N" by (simp add: N_def)
  have ea: "\<bar>a - of_int n\<bar> \<le> N / 2 ^ 53"
    unfolding a_def N_def by (rule float64_round_rel)
  have "N / 2 ^ 53 \<le> N"
    using N by (simp add: field_simps)
  then have a2: "\<bar>a\<bar> \<le> 2 * N"
    using ea unfolding N_def by linarith
  have ac: "\<bar>a * c\<bar> \<le> N / 2"
  proof -
    have "\<bar>a\<bar> * c \<le> (2 * N) * (1 / 4)"
      using a2 c N by (intro mult_mono) auto
    then show ?thesis using c by (simp add: abs_mult)
  qed
  have ep: "\<bar>p - a * c\<bar> \<le> (N / 2) / 2 ^ 53"
  proof -
    have "\<bar>p - a * c\<bar> \<le> \<bar>a * c\<bar> / 2 ^ 53"
      unfolding p_def by (rule float64_round_rel)
    also have "\<dots> \<le> (N / 2) / 2 ^ 53"
      using ac by (simp add: divide_right_mono)
    finally show ?thesis .
  qed
  have en: "\<bar>a * c - of_int n * c\<bar> \<le> (N / 4) / 2 ^ 53"
  proof -
    have "\<bar>a * c - of_int n * c\<bar> = \<bar>a - of_int n\<bar> * c"
      using c by (simp add: abs_mult flip: left_diff_distrib)
    also have "\<dots> \<le> (N / 2 ^ 53) * (1 / 4)"
      using ea c N by (intro mult_mono) auto
    finally show ?thesis by simp
  qed
  have pn: "\<bar>p - of_int n * c\<bar> \<le> N / 2 ^ 53"
  proof -
    have "\<bar>p - of_int n * c\<bar> \<le> \<bar>p - a * c\<bar> + \<bar>a * c - of_int n * c\<bar>"
      by linarith
    also have "\<dots> \<le> (N / 2) / 2 ^ 53 + (N / 4) / 2 ^ 53"
      using ep en by linarith
    also have "\<dots> \<le> N / 2 ^ 53"
      using N by (simp add: field_simps)
    finally show ?thesis .
  qed
  have "\<bar>real_of_int d - p\<bar> < 1"
    unfolding d by (rule int64_of_float64_bounds)
  then show "\<bar>real_of_int d - real_of_int n * c\<bar> < 1 + \<bar>real_of_int n\<bar> / 2 ^ 53"
    using pn unfolding N_def by linarith
  have nc: "\<bar>of_int n * c\<bar> \<le> N / 4"
  proof -
    have "N * c \<le> N * (1 / 4)"
      using c N by (intro mult_left_mono) auto
    then show ?thesis using c by (simp add: abs_mult N_def)
  qed
  have "\<bar>p\<bar> \<le> \<bar>of_int n * c\<bar> + N / 2 ^ 53"
    using pn by linarith
  also have "\<dots> \<le> N / 4 + N / 2 ^ 53"
    using nc by simp
  also have "\<dots> \<le> N"
    using N by (simp add: field_simps)
  finally have "\<bar>p\<bar> \<le> N" .
  moreover have "\<bar>real_of_int d\<bar> \<le> \<bar>p\<bar>"
    unfolding d by (rule int64_of_float64_bounds)
  ultimately have "\<bar>real_of_int d\<bar> \<le> \<bar>real_of_int n\<bar>"
    by (simp add: N_def)
  then show "\<bar>d\<bar> \<le> \<bar>n\<bar>"
    by linarith
qed

lemma toleratedDisruption_range:
  "0 \<le> fst (toleratedDisruptionSwitch f hasAllFixes topology)
   \<and> fst (toleratedDisruptionSwitch f hasAllFixes topology) \<le> 1 / 4"
proof -
  have "0 \<le> float64_round (8 / 100) \<and> float64_round (8 / 100) \<le> 1 / 4"
    unfolding float64_0_08 by simp
  moreover have "0 \<le> float64_round (15 / 100) \<and> float64_round (15 / 100) \<le> 1 / 4"
    unfolding float64_0_15 by simp
  moreover have "0 \<le> float64_round (23 / 100) \<and> float64_round (23 / 100) \<le> 1 / 4"
    unfolding float64_0_23 by simp
  ultimately show ?thesis
    by (simp add: toleratedDisruptionSwitch_def)
qed

lemma hundred_minutes_at_0_15:
  "int64_of_float64 (float64_mul (float64_of_int64 (100 * Minute)) (float64_round (15 / 100))) =
     15 * Minute"
  by (simp add: Minute_def float64_eval)

lemma hundred_minutes_at_0_08:
  "int64_of_float64 (float64_mul (float64_of_int64 (100 * Minute)) (float64_round (8 / 100))) =
     8 * Minute"
  by (simp add: Minute_def float64_eval)

lemma ten_nanoseconds_at_0_15:
  "int64_of_float64 (float64_mul (float64_of_int64 10) (float64_round (15 / 100))) = 1"
  by (simp add: float64_eval)

lemma zero_fraction: "int64_of_float64 (float64_mul a 0) = 0"
  by (simp add: float64_mul_def float64_round_def int64_of_float64_def)

section \<open>Properties of the API server disruption tolerance\<close>

text \<open>
  C2: when the control plane topology is \<open>SingleReplica\<close>, the tolerated
  fraction is \<open>0.15\<close>, or \<open>0.23\<close> when the provider is azure, whatever the version
  check returned and whatever else the provider is; the returned duration is
  computed from that fraction.
\<close>

theorem single_replica_tolerance:
  assumes "InfrastructureGet f = Inr status"
    and "ControlPlaneTopology status = SingleReplicaTopologyMode"
    and "AllClusterVersionsAreGTE f (4, 8) = (hasAllFixes, err)"
  shows "fst (toleratedDisruptionSwitch f hasAllFixes SingleReplicaTopologyMode) =
           (if ProviderIs f ''azure'' then float64_round (23 / 100) else float64_round (15 / 100))
       \<and> (\<exists>lines. allowedAPIServerDisruption f totalDuration =
            Inr (lines,
                 int64_of_float64
                   (float64_mul (float64_of_int64 totalDuration)
                      (if ProviderIs f ''azure'' then float64_round (23 / 100)
                       else float64_round (15 / 100))),
                 None))"
  using assms
  by (simp add: allowedAPIServerDisruption_def getTopologies_def toleratedDisruptionSwitch_def)

theorem single_replica_tolerance_witness:
  "fst (toleratedDisruptionSwitch singleNodeCluster True SingleReplicaTopologyMode) =
     float64_round (15 / 100)
   \<and> (\<exists>lines. allowedAPIServerDisruption singleNodeCluster (100 * Minute) =
         Inr (lines, 15 * Minute, None))"
proof -
  have 1: "InfrastructureGet singleNodeCluster =
      Inr \<lparr>ControlPlaneTopology = ''SingleReplica'', InfrastructureTopology = ''SingleReplica''\<rparr>"
    by (simp add: singleNodeCluster_def)
  have 2: "ControlPlaneTopology
      \<lparr>ControlPlaneTopology = ''SingleReplica'', InfrastructureTopology = ''SingleReplica''\<rparr> =
      SingleReplicaTopologyMode"
    by (simp add: SingleReplicaTopologyMode_def)
  have 3: "AllClusterVersionsAreGTE singleNodeCluster (4, 8) = (True, None)"
    by (simp add: singleNodeCluster_def)
  have 4: "\<not> ProviderIs singleNodeCluster ''azure''"
    by (simp add: singleNodeCluster_def)
  show ?thesis
    using single_replica_tolerance [OF 1 2 3, of "100 * Minute"] 4
    by (simp only: if_False hundred_minutes_at_0_15)
qed

text \<open>
  C3: when the control plane topology is not \<open>SingleReplica\<close>, the tolerated
  fraction is \<open>0\<close> if the provider is azure, aws or gce and all cluster versions
  are at least 4.8, and the default \<open>0.08\<close> in every other case; the returned
  duration is computed from that fraction.
\<close>

theorem replicated_tolerance:
  assumes "InfrastructureGet f = Inr status"
    and "ControlPlaneTopology status = topology"
    and "topology \<noteq> SingleReplicaTopologyMode"
    and "AllClusterVersionsAreGTE f (4, 8) = (hasAllFixes, err)"
  shows "fst (toleratedDisruptionSwitch f hasAllFixes topology) =
           (if (ProviderIs f ''azure'' \<or> ProviderIs f ''aws'' \<or> ProviderIs f ''gce'')
               \<and> hasAllFixes
            then 0 else float64_round (8 / 100))
       \<and> (\<exists>lines. allowedAPIServerDisruption f totalDuration =
            Inr (lines,
                 int64_of_float64
                   (float64_mul (float64_of_int64 totalDuration)
                      (if (ProviderIs f ''azure'' \<or> ProviderIs f ''aws'' \<or> ProviderIs f ''gce'')
                          \<and> hasAllFixes
                       then 0 else float64_round (8 / 100))),
                 None))"
  using assms
  by (auto simp: allowedAPIServerDisruption_def getTopologies_def toleratedDisruptionSwitch_def)

theorem replicated_tolerance_witness:
  "fst (toleratedDisruptionSwitch replicatedCluster True ''HighlyAvailable'') = 0
   \<and> (\<exists>lines. allowedAPIServerDisruption replicatedCluster (100 * Minute) = Inr (lines, 0, None))"
proof -
  have 1: "InfrastructureGet replicatedCluster =
      Inr \<lparr>ControlPlaneTopology = ''HighlyAvailable'',
           InfrastructureTopology = ''HighlyAvailable''\<rparr>"
    by (simp add: replicatedCluster_def)
  have 2: "ControlPlaneTopology
      \<lparr>ControlPlaneTopology = ''HighlyAvailable'', InfrastructureTopology = ''HighlyAvailable''\<rparr> =
      ''HighlyAvailable''"
    by simp
  have 3: "''HighlyAvailable'' \<noteq> SingleReplicaTopologyMode"
    by (simp add: SingleReplicaTopologyMode_def)
  have 4: "AllClusterVersionsAreGTE replicatedCluster (4, 8) = (True, None)"
    by (simp add: replicatedCluster_def)
  have 5: "ProviderIs replicatedCluster ''aws''"
    by (simp add: replicatedCluster_def)
  show ?thesis
    using replicated_tolerance [OF 1 2 3 4, of "100 * Minute"] 5
    by (simp only: simp_thms if_True zero_fraction)
qed

text \<open>
  C4, as claimed, fails: when the infrastructure resource that carries the
  control plane topology cannot be read, \<open>getTopologies\<close> fails the test through
  \<open>framework.ExpectNoError\<close> and no duration is returned.
\<close>

theorem topology_fetch_failure_aborts:
  "allowedAPIServerDisruption unreachableCluster (100 * Minute) =
     Inl ([''Cannot require full control plane availability, ''
           @ ''some versions could not be checked: connection refused''],
          Failure ''unable to determine cluster topology'' (Error ''connection refused''))"
  by (simp add: allowedAPIServerDisruption_def getTopologies_def unreachableCluster_def)

text \<open>
  C4, amended: when the version check returns an error, the computation goes
  on: the caveat is logged first, and the duration is computed by the same rules
  from the boolean the check returned; when that boolean is false, the fraction
  is the one of the rules that do not depend on the check (\<open>0.15\<close> or \<open>0.23\<close> on a
  single replica control plane, \<open>0.08\<close> otherwise). When reading the
  infrastructure resource returns an error, the computation fails with
  \<open>unable to determine cluster topology\<close>, after the caveat of a failed version
  check, if any, was logged.
\<close>

theorem baseline_check_failure_falls_through:
  "(AllClusterVersionsAreGTE f (4, 8) = (hasAllFixes, Some e) \<and> InfrastructureGet f = Inr status
      \<longrightarrow>
      (\<exists>lines. allowedAPIServerDisruption f totalDuration =
         Inr ((''Cannot require full control plane availability, ''
               @ ''some versions could not be checked: '' @ error_text e) # lines,
              int64_of_float64
                (float64_mul (float64_of_int64 totalDuration)
                   (fst (toleratedDisruptionSwitch f hasAllFixes (ControlPlaneTopology status)))),
              None))
      \<and> (\<not> hasAllFixes \<longrightarrow>
           fst (toleratedDisruptionSwitch f hasAllFixes (ControlPlaneTopology status)) =
             (if ControlPlaneTopology status = SingleReplicaTopologyMode
              then (if ProviderIs f ''azure'' then float64_round (23 / 100)
                    else float64_round (15 / 100))
              else float64_round (8 / 100))))
   \<and> (InfrastructureGet f = Inl e' \<and> AllClusterVersionsAreGTE f (4, 8) = (checked, err) \<longrightarrow>
        allowedAPIServerDisruption f totalDuration =
          Inl ((case err of
                  None \<Rightarrow> []
                | Some e \<Rightarrow>
                    [''Cannot require full control plane availability, ''
                     @ ''some versions could not be checked: '' @ error_text e]),
               Failure ''unable to determine cluster topology'' e'))"
  by (auto simp: allowedAPIServerDisruption_def getTopologies_def toleratedDisruptionSwitch_def
      split: prod.splits)

theorem baseline_check_failure_falls_through_witness:
  "allowedAPIServerDisruption unverifiedCluster (100 * Minute) =
     Inr ([''Cannot require full control plane availability, ''
           @ ''some versions could not be checked: connection refused''],
          8 * Minute, None)
   \<and> allowedAPIServerDisruption unreachableCluster Minute =
     Inl ([''Cannot require full control plane availability, ''
           @ ''some versions could not be checked: connection refused''],
          Failure ''unable to determine cluster topology'' (Error ''connection refused''))"
proof -
  let ?status = "\<lparr>ControlPlaneTopology = ''HighlyAvailable'',
                  InfrastructureTopology = ''HighlyAvailable''\<rparr>"
  have 1: "AllClusterVersionsAreGTE unverifiedCluster (4, 8) =
      (False, Some (Error ''connection refused''))"
    by (simp add: unverifiedCluster_def)
  have 2: "InfrastructureGet unverifiedCluster = Inr ?status"
    by (simp add: unverifiedCluster_def)
  have 3: "ControlPlaneTopology ?status \<noteq> SingleReplicaTopologyMode"
    by (simp add: SingleReplicaTopologyMode_def)
  from baseline_check_failure_falls_through
    [of unverifiedCluster False "Error ''connection refused''" ?status "100 * Minute"] 1 2
  have run: "\<exists>lines. allowedAPIServerDisruption unverifiedCluster (100 * Minute) =
         Inr ((''Cannot require full control plane availability, ''
               @ ''some versions could not be checked: '' @ error_text (Error ''connection refused''))
              # lines,
              int64_of_float64
                (float64_mul (float64_of_int64 (100 * Minute))
                   (fst (toleratedDisruptionSwitch unverifiedCluster False
                      (ControlPlaneTopology ?status)))),
              None)"
    and frac: "fst (toleratedDisruptionSwitch unverifiedCluster False (ControlPlaneTopology ?status)) =
             (if ControlPlaneTopology ?status = SingleReplicaTopologyMode
              then (if ProviderIs unverifiedCluster ''azure'' then float64_round (23 / 100)
                    else float64_round (15 / 100))
              else float64_round (8 / 100))"
    by blast+
  have frac': "fst (toleratedDisruptionSwitch unverifiedCluster False (ControlPlaneTopology ?status)) =
      float64_round (8 / 100)"
    using frac 3 by (simp only: if_False)
  have lines: "snd (toleratedDisruptionSwitch unverifiedCluster False (ControlPlaneTopology ?status)) = []"
    by (simp add: toleratedDisruptionSwitch_def unverifiedCluster_def SingleReplicaTopologyMode_def)
  from run obtain lines where r: "allowedAPIServerDisruption unverifiedCluster (100 * Minute) =
         Inr ((''Cannot require full control plane availability, ''
               @ ''some versions could not be checked: '' @ error_text (Error ''connection refused''))
              # lines, 8 * Minute, None)"
    unfolding frac' hundred_minutes_at_0_08 by blast
  have "lines = []"
    using r lines 1 2
    by (simp add: allowedAPIServerDisruption_def getTopologies_def split: prod.splits)
  then have falls_through: "allowedAPIServerDisruption unverifiedCluster (100 * Minute) =
     Inr ([''Cannot require full control plane availability, ''
           @ ''some versions could not be checked: connection refused''],
          8 * Minute, None)"
    using r by simp
  have "InfrastructureGet unreachableCluster = Inl (Error ''connection refused'')
      \<and> AllClusterVersionsAreGTE unreachableCluster (4, 8) =
          (False, Some (Error ''connection refused''))"
    by (simp add: unreachableCluster_def)
  with baseline_check_failure_falls_through
    [where f = unreachableCluster and e' = "Error ''connection refused''"
      and checked = False and err = "Some (Error ''connection refused'')"
      and totalDuration = Minute]
  have "allowedAPIServerDisruption unreachableCluster Minute =
     Inl ((case Some (Error ''connection refused'') of
             None \<Rightarrow> []
           | Some e \<Rightarrow>
               [''Cannot require full control plane availability, ''
                @ ''some versions could not be checked: '' @ error_text e]),
          Failure ''unable to determine cluster topology'' (Error ''connection refused''))"
    by blast
  then have aborts: "allowedAPIServerDisruption unreachableCluster Minute =
     Inl ([''Cannot require full control plane availability, ''
           @ ''some versions could not be checked: connection refused''],
          Failure ''unable to determine cluster topology'' (Error ''connection refused''))"
    by simp
  from falls_through aborts show ?thesis ..
qed

text \<open>
  C8, as claimed, fails: on the single-node cluster a run of 10 nanoseconds is
  allowed 1 nanosecond, which is neither 10 times the \<open>float64\<close> \<open>0.15\<close> nor 10
  times \<open>15/100\<close>.
\<close>

theorem allowed_duration_truncates:
  "allowedAPIServerDisruption singleNodeCluster 10 = Inr ([], 1, None)
   \<and> fst (toleratedDisruptionSwitch singleNodeCluster True SingleReplicaTopologyMode) =
       float64_round (15 / 100)
   \<and> real_of_int 10 * float64_round (15 / 100) \<noteq> real_of_int 1
   \<and> real_of_int 10 * (15 / 100) \<noteq> real_of_int 1"
proof -
  have "fst (toleratedDisruptionSwitch singleNodeCluster True SingleReplicaTopologyMode) =
       float64_round (15 / 100)"
    by (simp add: toleratedDisruptionSwitch_def singleNodeCluster_def)
  moreover have "snd (toleratedDisruptionSwitch singleNodeCluster True SingleReplicaTopologyMode) = []"
    by (simp add: toleratedDisruptionSwitch_def singleNodeCluster_def)
  moreover have "InfrastructureGet singleNodeCluster =
      Inr \<lparr>ControlPlaneTopology = SingleReplicaTopologyMode,
           InfrastructureTopology = ''SingleReplica''\<rparr>"
    by (simp add: singleNodeCluster_def SingleReplicaTopologyMode_def)
  moreover have "AllClusterVersionsAreGTE singleNodeCluster (4, 8) = (True, None)"
    by (simp add: singleNodeCluster_def)
  ultimately have "allowedAPIServerDisruption singleNodeCluster 10 =
      Inr ([], int64_of_float64 (float64_mul (float64_of_int64 10) (float64_round (15 / 100))), None)"
    by (simp add: allowedAPIServerDisruption_def getTopologies_def case_prod_unfold)
  then have "allowedAPIServerDisruption singleNodeCluster 10 = Inr ([], 1, None)"
    unfolding ten_nanoseconds_at_0_15 .
  moreover have "real_of_int 10 * float64_round (15 / 100) \<noteq> real_of_int 1"
    unfolding float64_0_15 by simp
  moreover have "real_of_int 10 * (15 / 100) \<noteq> real_of_int 1"
    by simp
  ultimately show ?thesis
    using \<open>fst (toleratedDisruptionSwitch singleNodeCluster True SingleReplicaTopologyMode) =
       float64_round (15 / 100)\<close> by blast
qed

text \<open>
  C8, amended: the returned duration is the \<open>float64\<close> product of the run
  duration in nanoseconds and the tolerated fraction, truncated towards zero to
  whole nanoseconds. It differs from the exact product by less than
  \<open>1 + |totalDuration| / 2 ^ 53\<close> nanoseconds and is not larger in magnitude than
  the run duration. A run of 100 minutes on a single replica control plane
  that is not on azure is allowed exactly 15 minutes.
\<close>

theorem allowed_duration_truncated_product:
  assumes "InfrastructureGet f = Inr status"
    and "AllClusterVersionsAreGTE f (4, 8) = (hasAllFixes, err)"
    and "toleratedDisruption = fst (toleratedDisruptionSwitch f hasAllFixes (ControlPlaneTopology status))"
  shows "\<exists>lines d. allowedAPIServerDisruption f totalDuration = Inr (lines, d, None)
           \<and> d = int64_of_float64 (float64_mul (float64_of_int64 totalDuration) toleratedDisruption)
           \<and> \<bar>real_of_int d - real_of_int totalDuration * toleratedDisruption\<bar>
               < 1 + \<bar>real_of_int totalDuration\<bar> / 2 ^ 53
           \<and> \<bar>d\<bar> \<le> \<bar>totalDuration\<bar>
           \<and> (totalDuration = 100 * Minute
                \<and> ControlPlaneTopology status = SingleReplicaTopologyMode
                \<and> \<not> ProviderIs f ''azure'' \<longrightarrow> d = 15 * Minute)"
proof -
  define d where
    "d = int64_of_float64 (float64_mul (float64_of_int64 totalDuration) toleratedDisruption)"
  have range: "0 \<le> toleratedDisruption" "toleratedDisruption \<le> 1 / 4"
    using toleratedDisruption_range [of f hasAllFixes "ControlPlaneTopology status"] assms(3)
    by simp_all
  have run: "allowedAPIServerDisruption f totalDuration =
      Inr ((case err of None \<Rightarrow> []
            | Some e \<Rightarrow> [''Cannot require full control plane availability, ''
                @ ''some versions could not be checked: '' @ error_text e])
           @ snd (toleratedDisruptionSwitch f hasAllFixes (ControlPlaneTopology status)), d, None)"
    using assms
    by (simp add: allowedAPIServerDisruption_def getTopologies_def d_def split: prod.splits)
  have close: "\<bar>real_of_int d - real_of_int totalDuration * toleratedDisruption\<bar>
      < 1 + \<bar>real_of_int totalDuration\<bar> / 2 ^ 53"
    unfolding d_def using range by (rule scaled_duration_bounds)
  have le: "\<bar>d\<bar> \<le> \<bar>totalDuration\<bar>"
    unfolding d_def using range by (rule scaled_duration_bounds)
  have scenario: "d = 15 * Minute"
    if "totalDuration = 100 * Minute \<and> ControlPlaneTopology status = SingleReplicaTopologyMode
        \<and> \<not> ProviderIs f ''azure''"
  proof -
    have "toleratedDisruption = float64_round (15 / 100)"
      using that assms(3) by (simp add: toleratedDisruptionSwitch_def)
    then show ?thesis
      using that hundred_minutes_at_0_15 by (simp only: d_def)
  qed
  show ?thesis
    using run close le scenario d_def by blast
qed

theorem allowed_duration_truncated_product_witness:
  "\<exists>lines. allowedAPIServerDisruption singleNodeCluster (100 * Minute) =
     Inr (lines, 15 * Minute, None)"
proof -
  let ?status = "\<lparr>ControlPlaneTopology = ''SingleReplica'',
                  InfrastructureTopology = ''SingleReplica''\<rparr>"
  have 1: "InfrastructureGet singleNodeCluster = Inr ?status"
    by (simp add: singleNodeCluster_def)
  have 2: "AllClusterVersionsAreGTE singleNodeCluster (4, 8) = (True, None)"
    by (simp add: singleNodeCluster_def)
  have 3: "100 * Minute = 100 * Minute \<and> ControlPlaneTopology ?status = SingleReplicaTopologyMode
      \<and> \<not> ProviderIs singleNodeCluster ''azure''"
    by (simp add: singleNodeCluster_def SingleReplicaTopologyMode_def)
  from allowed_duration_truncated_product [OF 1 2 refl, of "100 * Minute"]
  obtain lines d where run: "allowedAPIServerDisruption singleNodeCluster (100 * Minute) =
      Inr (lines, d, None)"
    and scenario: "100 * Minute = 100 * Minute
      \<and> ControlPlaneTopology ?status = SingleReplicaTopologyMode
      \<and> \<not> ProviderIs singleNodeCluster ''azure'' \<longrightarrow> d = 15 * Minute"
    by blast
  from scenario 3 have "d = 15 * Minute" ..
  with run show ?thesis by blast
qed

end
